theory Spec2Isabelle
  imports
    Complex_Main
    "HOL-Library.AList"
    "HOL-Library.Char_ord"
    "HOL-Library.List_Lexorder"
    "HOL-Library.Product_Lexorder"
begin

section \<open>The relational data the programs read\<close>

text \<open>
  The tables follow \<^verbatim>\<open>setup_database\<close> in \<^verbatim>\<open>restocking_system.py\<close>. A \<^verbatim>\<open>TEXT\<close> column is a
  \<open>string\<close>, an \<^verbatim>\<open>INTEGER\<close> column an \<open>int\<close>, a \<^verbatim>\<open>DATE\<close> column the number of its day (what
  \<^verbatim>\<open>julianday\<close> returns for a date without a time of day; on ISO dates the textual
  comparison of SQLite is the comparison of these numbers), and the nullable
  \<^verbatim>\<open>actual_delivery\<close> an \<open>option\<close>. Python floats and SQLite reals are modelled by exact
  real numbers (the recommendation engine a second time on doubles, with the rounding of
  every operation), SQLite's 64-bit integers by unbounded ones. A table is the list of
  its rows.
\<close>

type_synonym date = int

record orders_row =
  o_order_id :: string
  o_customer_id :: string
  o_product_id :: string
  o_order_date :: date
  o_order_status :: string
  o_quantity :: int

record shipment_row =
  s_shipment_id :: string
  s_order_id :: string
  s_warehouse_id :: string
  s_carrier_id :: string
  s_service_level :: string
  s_shipment_status :: string
  s_ship_date :: date
  s_estimated_delivery :: date
  s_actual_delivery :: "date option"
  s_tracking_number :: string

record inventory_row =
  i_product_id :: string
  i_warehouse_id :: string
  i_stock_quantity :: int
  i_reserved_quantity :: int

record product_row =
  p_product_id :: string
  p_product_name :: string
  p_product_category :: string
  p_unit_price :: real

record warehouse_row =
  w_warehouse_id :: string
  w_warehouse_name :: string
  w_location :: string
  w_capacity :: int

record database =
  orders :: "orders_row list"
  shipment :: "shipment_row list"
  inventory :: "inventory_row list"
  product :: "product_row list"
  warehouse :: "warehouse_row list"

section \<open>Python and SQL primitives\<close>

datatype py_error = ZeroDivisionError

text \<open>Python's \<^verbatim>\<open>int(x)\<close> on a float truncates towards zero.\<close>

definition py_int :: "real \<Rightarrow> int" where
  "py_int x = (if 0 \<le> x then \<lfloor>x\<rfloor> else \<lceil>x\<rceil>)"

text \<open>
  Rounding to the nearest integer, a tie going to the even neighbour: what Python's
  \<^verbatim>\<open>round\<close> and pandas' \<^verbatim>\<open>DataFrame.round\<close> do.
\<close>

definition round_half_even :: "real \<Rightarrow> int" where
  "round_half_even x =
     (let f = \<lfloor>x\<rfloor>; d = x - of_int f
      in if d < 1 / 2 then f
         else if 1 / 2 < d then f + 1
         else if even f then f else f + 1)"

text \<open>\<^verbatim>\<open>round(x, ndigits)\<close>.\<close>

definition py_round :: "real \<Rightarrow> nat \<Rightarrow> real" where
  "py_round x ndigits = of_int (round_half_even (x * 10 ^ ndigits)) / 10 ^ ndigits"

text \<open>
  \<^verbatim>\<open>GROUP BY\<close>: the keys that occur among the rows, and the rows of one key.
\<close>

definition group_keys :: "('r \<Rightarrow> 'k) \<Rightarrow> 'r list \<Rightarrow> 'k list" where
  "group_keys key rows = remdups (map key rows)"

definition group_rows :: "('r \<Rightarrow> 'k) \<Rightarrow> 'r list \<Rightarrow> 'k \<Rightarrow> 'r list" where
  "group_rows key rows k = filter (\<lambda>r. key r = k) rows"

text \<open>\<^verbatim>\<open>AVG\<close> over the rows of a group (a group has at least one row).\<close>

definition sql_avg :: "real list \<Rightarrow> real" where
  "sql_avg xs = sum_list xs / of_nat (length xs)"

text \<open>The shipments that pass \<^verbatim>\<open>WHERE actual_delivery IS NOT NULL\<close>, with that date.\<close>

definition delivered_shipments :: "database \<Rightarrow> (shipment_row \<times> date) list" where
  "delivered_shipments db =
     concat (map (\<lambda>s. case s_actual_delivery s of None \<Rightarrow> [] | Some a \<Rightarrow> [(s, a)]) (shipment db))"

section \<open>\<^verbatim>\<open>restocking_system.py\<close>: the metric extractors\<close>

text \<open>
  The query of \<^verbatim>\<open>calculate_sales_velocity\<close>: orders joined to their shipments, kept when
  the order is recent and shipped or delivered, summed by product and warehouse.
\<close>

definition sales_velocity_query :: "database \<Rightarrow> date \<Rightarrow> ((string \<times> string) \<times> int) list" where
  "sales_velocity_query db cutoff_date =
     (let joined = [(ord, s). ord \<leftarrow> orders db, s \<leftarrow> shipment db,
                      o_order_id ord = s_order_id s,
                      cutoff_date \<le> o_order_date ord,
                      o_order_status ord = ''Shipped'' \<or> o_order_status ord = ''Delivered''];
          key = (\<lambda>(ord, s). (o_product_id ord, s_warehouse_id s))
      in map (\<lambda>k. (k, sum_list (map (\<lambda>(ord, s). o_quantity ord) (group_rows key joined k))))
           (group_keys key joined))"

text \<open>The loop that fills the dictionary; \<^verbatim>\<open>total_sold / days\<close> raises when \<^verbatim>\<open>days\<close> is 0.\<close>

fun velocity_loop ::
  "int \<Rightarrow> ((string \<times> string) \<times> int) list \<Rightarrow> ((string \<times> string) \<rightharpoonup> real)
     \<Rightarrow> py_error + ((string \<times> string) \<rightharpoonup> real)" where
  "velocity_loop days [] velocity = Inr velocity"
| "velocity_loop days ((k, total_sold) # results) velocity =
     (if days = 0 then Inl ZeroDivisionError
      else velocity_loop days results (velocity(k \<mapsto> of_int total_sold / of_int days)))"

definition calculate_sales_velocity ::
  "database \<Rightarrow> date \<Rightarrow> int \<Rightarrow> py_error + ((string \<times> string) \<rightharpoonup> real)" where
  "calculate_sales_velocity db now days =
     velocity_loop days (sales_velocity_query db (now - days)) Map.empty"

text \<open>The query of \<^verbatim>\<open>get_average_shipment_time\<close>.\<close>

definition shipment_time_query :: "database \<Rightarrow> (string \<times> real) list" where
  "shipment_time_query db =
     (let rows = delivered_shipments db;
          key = (\<lambda>(s, a). s_warehouse_id s)
      in map (\<lambda>w. (w, sql_avg (map (\<lambda>(s, a). of_int (a - s_ship_date s)) (group_rows key rows w))))
           (group_keys key rows))"

text \<open>
  \<^verbatim>\<open>shipment_times[warehouse_id] = avg_days if avg_days else 5.0\<close>: the float \<^verbatim>\<open>0.0\<close> is
  false in Python, so an average of 0 is stored as 5.
\<close>

fun shipment_time_loop :: "(string \<times> real) list \<Rightarrow> (string \<rightharpoonup> real) \<Rightarrow> (string \<rightharpoonup> real)" where
  "shipment_time_loop [] shipment_times = shipment_times"
| "shipment_time_loop ((warehouse_id, avg_days) # results) shipment_times =
     shipment_time_loop results
       (shipment_times(warehouse_id \<mapsto> (if avg_days \<noteq> 0 then avg_days else 5)))"

definition get_average_shipment_time :: "database \<Rightarrow> (string \<rightharpoonup> real)" where
  "get_average_shipment_time db = shipment_time_loop (shipment_time_query db) Map.empty"

text \<open>
  \<^verbatim>\<open>get_current_inventory\<close>. The dictionary is iterated later, so it is an association
  list in insertion order; storing under a key that is present replaces the value in place.
\<close>

record inventory_data =
  stock_quantity :: int
  reserved_quantity :: int
  available_quantity :: int

fun inventory_loop ::
  "inventory_row list \<Rightarrow> ((string \<times> string) \<times> inventory_data) list
     \<Rightarrow> ((string \<times> string) \<times> inventory_data) list" where
  "inventory_loop [] inventory_dict = inventory_dict"
| "inventory_loop (row # results) inventory_dict =
     (let stock_qty = i_stock_quantity row;
          reserved_qty = i_reserved_quantity row;
          available_qty = stock_qty - reserved_qty
      in inventory_loop results
           (AList.update (i_product_id row, i_warehouse_id row)
              \<lparr>stock_quantity = stock_qty, reserved_quantity = reserved_qty,
               available_quantity = available_qty\<rparr> inventory_dict))"

definition get_current_inventory :: "database \<Rightarrow> ((string \<times> string) \<times> inventory_data) list" where
  "get_current_inventory db = inventory_loop (inventory db) []"

section \<open>\<^verbatim>\<open>restocking_system.py\<close>: the recommendation engine\<close>

record recommendation =
  product_id :: string
  warehouse_id :: string
  recommended_restock_quantity :: int
  current_available_stock :: int
  sales_velocity_per_day :: real
  avg_shipment_time_days :: real
  reorder_point :: real
  safety_stock :: real
  target_stock :: real
  urgency_score :: real

text \<open>The quantities the loop body computes for one pair, before any rounding.\<close>

definition pair_velocity :: "((string \<times> string) \<rightharpoonup> real) \<Rightarrow> string \<Rightarrow> string \<Rightarrow> real" where
  "pair_velocity sales_velocity p w =
     (case sales_velocity (p, w) of Some v \<Rightarrow> v | None \<Rightarrow> 1 / 10)"

definition pair_shipment_time :: "(string \<rightharpoonup> real) \<Rightarrow> string \<Rightarrow> real" where
  "pair_shipment_time shipment_times w =
     (case shipment_times w of Some t \<Rightarrow> t | None \<Rightarrow> 5)"

definition pair_safety_stock :: "int \<Rightarrow> real \<Rightarrow> real" where
  "pair_safety_stock safety_stock_days velocity = velocity * of_int safety_stock_days"

definition pair_reorder_point :: "int \<Rightarrow> real \<Rightarrow> real \<Rightarrow> real" where
  "pair_reorder_point restock_threshold_days velocity avg_shipment_time =
     velocity * (avg_shipment_time + of_int restock_threshold_days)"

definition pair_target_stock :: "int \<Rightarrow> real \<Rightarrow> real" where
  "pair_target_stock safety_stock_days velocity =
     pair_safety_stock safety_stock_days velocity + velocity * 30"

text \<open>
  One iteration of the loop of \<^verbatim>\<open>calculate_restock_recommendations\<close>: nothing for a pair
  above its reorder point, a record for a pair at or below it, and the
  \<^verbatim>\<open>ZeroDivisionError\<close> of the urgency score when the reorder point is 0.
\<close>

definition restock_entry ::
  "int \<Rightarrow> int \<Rightarrow> ((string \<times> string) \<rightharpoonup> real) \<Rightarrow> (string \<rightharpoonup> real)
     \<Rightarrow> (string \<times> string) \<times> inventory_data \<Rightarrow> py_error + recommendation option" where
  "restock_entry safety_stock_days restock_threshold_days sales_velocity shipment_times item =
     (case item of ((p, w), inventory_data) \<Rightarrow>
        let available_qty = available_quantity inventory_data;
            velocity = pair_velocity sales_velocity p w;
            avg_shipment_time = pair_shipment_time shipment_times w;
            safety_stock = pair_safety_stock safety_stock_days velocity;
            reorder_point = pair_reorder_point restock_threshold_days velocity avg_shipment_time
        in if of_int available_qty \<le> reorder_point then
             let target_stock = pair_target_stock safety_stock_days velocity;
                 recommended_qty = max 1 (py_int (target_stock - of_int available_qty))
             in if reorder_point = 0 then Inl ZeroDivisionError
                else Inr (Some
                  \<lparr>product_id = p,
                   warehouse_id = w,
                   recommended_restock_quantity = recommended_qty,
                   current_available_stock = available_qty,
                   sales_velocity_per_day = py_round velocity 2,
                   avg_shipment_time_days = py_round avg_shipment_time 1,
                   reorder_point = py_round reorder_point 1,
                   safety_stock = py_round safety_stock 1,
                   target_stock = py_round target_stock 1,
                   urgency_score =
                     py_round ((reorder_point - of_int available_qty) / reorder_point * 100) 1\<rparr>)
           else Inr None)"

fun restock_loop ::
  "int \<Rightarrow> int \<Rightarrow> ((string \<times> string) \<rightharpoonup> real) \<Rightarrow> (string \<rightharpoonup> real)
     \<Rightarrow> ((string \<times> string) \<times> inventory_data) list \<Rightarrow> recommendation list
     \<Rightarrow> py_error + recommendation list" where
  "restock_loop ssd rtd sv st [] recommendations = Inr recommendations"
| "restock_loop ssd rtd sv st (item # items) recommendations =
     (case restock_entry ssd rtd sv st item of
        Inl e \<Rightarrow> Inl e
      | Inr None \<Rightarrow> restock_loop ssd rtd sv st items recommendations
      | Inr (Some r) \<Rightarrow> restock_loop ssd rtd sv st items (recommendations @ [r]))"

text \<open>
  \<^verbatim>\<open>calculate_restock_recommendations\<close>. The velocity window is the default of 30 days.
  \<^verbatim>\<open>list.sort(key, reverse=True)\<close> is stable and keeps equal keys in their order, which is
  the stable ascending sort on the negated key.
\<close>

definition calculate_restock_recommendations ::
  "database \<Rightarrow> date \<Rightarrow> int \<Rightarrow> int \<Rightarrow> py_error + recommendation list" where
  "calculate_restock_recommendations db now safety_stock_days restock_threshold_days =
     (case calculate_sales_velocity db now 30 of
        Inl e \<Rightarrow> Inl e
      | Inr sales_velocity \<Rightarrow>
          let shipment_times = get_average_shipment_time db;
              current_inventory = get_current_inventory db
          in (case restock_loop safety_stock_days restock_threshold_days sales_velocity
                     shipment_times current_inventory [] of
                Inl e \<Rightarrow> Inl e
              | Inr recommendations \<Rightarrow>
                  Inr (sort_key (\<lambda>x. - urgency_score x) recommendations)))"

section \<open>\<^verbatim>\<open>restocking_system.py\<close>: the recommendation engine on doubles\<close>

text \<open>
  Python's floats and SQLite's reals are IEEE 754 doubles: each operation returns the double
  nearest to the exact result, a tie going to the even mantissa. \<open>double_round\<close> is that
  rounding, for a real of any size below the overflow threshold (the overflow to infinity
  is not modelled): \<open>float_exponent\<close> is the binary exponent, found by halving or doubling,
  \<open>double_ulp\<close> the spacing of the doubles there (53 bits of mantissa, the subnormal
  spacing below the exponent -1022).
\<close>

function ilog2_up :: "real \<Rightarrow> int" where
  "ilog2_up x = (if 2 \<le> x then ilog2_up (x / 2) + 1 else 0)"
  by pat_completeness auto
termination
proof (relation "measure (\<lambda>x. nat \<lfloor>x\<rfloor>)")
  show "wf (measure (\<lambda>x::real. nat \<lfloor>x\<rfloor>))" by simp
next
  fix x :: real
  assume x: "2 \<le> x"
  then have "x / 2 \<le> x - 1" by simp
  then have "\<lfloor>x / 2\<rfloor> \<le> \<lfloor>x - 1\<rfloor>" by (rule floor_mono)
  then have "\<lfloor>x / 2\<rfloor> < \<lfloor>x\<rfloor>" by simp
  moreover from x have "0 < \<lfloor>x\<rfloor>" by simp
  ultimately show "(x / 2, x) \<in> measure (\<lambda>x. nat \<lfloor>x\<rfloor>)" by simp
qed

function ilog2_down :: "real \<Rightarrow> int" where
  "ilog2_down x = (if 0 < x \<and> x < 1 then ilog2_down (2 * x) - 1 else 0)"
  by pat_completeness auto
termination
proof (relation "measure (\<lambda>x. nat \<lfloor>1 / x\<rfloor>)")
  show "wf (measure (\<lambda>x::real. nat \<lfloor>1 / x\<rfloor>))" by simp
next
  fix x :: real
  assume x: "0 < x \<and> x < 1"
  define y where "y = 1 / x"
  from x have y: "1 < y" by (simp add: y_def)
  then have n: "1 \<le> \<lfloor>y\<rfloor>" by simp
  have "y < of_int \<lfloor>y\<rfloor> + 1" by linarith
  with n have "y / 2 < of_int \<lfloor>y\<rfloor>" by linarith
  then have "\<lfloor>y / 2\<rfloor> < \<lfloor>y\<rfloor>" by (simp add: floor_less_iff)
  moreover have "1 / (2 * x) = y / 2" by (simp add: y_def)
  ultimately have "\<lfloor>1 / (2 * x)\<rfloor> < \<lfloor>1 / x\<rfloor>" by (simp only: y_def)
  moreover from n have "0 < \<lfloor>1 / x\<rfloor>" by (simp only: y_def)
  ultimately show "(2 * x, x) \<in> measure (\<lambda>x. nat \<lfloor>1 / x\<rfloor>)"
    by (simp only: in_measure)
qed

declare ilog2_up.simps [simp del] ilog2_down.simps [simp del]

definition pow2 :: "int \<Rightarrow> real" where
  "pow2 k = (if 0 \<le> k then 2 ^ nat k else 1 / 2 ^ nat (- k))"

definition float_exponent :: "real \<Rightarrow> int" where
  "float_exponent x = (if 1 \<le> \<bar>x\<bar> then ilog2_up \<bar>x\<bar> else ilog2_down \<bar>x\<bar>)"

definition double_ulp :: "real \<Rightarrow> real" where
  "double_ulp x = pow2 (max (float_exponent x) (- 1022) - 52)"

definition double_round :: "real \<Rightarrow> real" where
  "double_round x =
     (if x = 0 then 0
      else sgn x * (of_int (round_half_even (\<bar>x\<bar> / double_ulp x)) * double_ulp x))"

text \<open>
  The engine again, with a rounding function \<open>fl\<close> applied after every floating-point
  operation and every conversion of an integer to a float, in the order in which the code
  evaluates them; \<open>fl\<close> is \<open>double_round\<close> for the program as it runs, and the identity
  gives back the engine over the reals. The velocity stored for a pair is the double
  nearest to \<^verbatim>\<open>total_sold / days\<close> (the true division of two integers is correctly
  rounded); the average of whole days is the double nearest to the quotient of their sum
  (exact below \<open>2 ^ 53\<close>) by their number. The constants 5.0, 30 and 100 are doubles, 0.1 is
  the double nearest to 1/10. The comparison of the integer \<^verbatim>\<open>available_qty\<close> with the
  float \<^verbatim>\<open>reorder_point\<close> is exact. \<^verbatim>\<open>round(x, n)\<close> rounds the value of the double to
  \<open>n\<close> decimals and returns the double nearest to that.
\<close>

definition fl_calculate_sales_velocity ::
  "(real \<Rightarrow> real) \<Rightarrow> database \<Rightarrow> date \<Rightarrow> int \<Rightarrow> py_error + ((string \<times> string) \<rightharpoonup> real)" where
  "fl_calculate_sales_velocity fl db now days =
     (case calculate_sales_velocity db now days of
        Inl e \<Rightarrow> Inl e
      | Inr velocity \<Rightarrow> Inr (\<lambda>k. map_option fl (velocity k)))"

definition fl_get_average_shipment_time :: "(real \<Rightarrow> real) \<Rightarrow> database \<Rightarrow> (string \<rightharpoonup> real)" where
  "fl_get_average_shipment_time fl db =
     shipment_time_loop (map (\<lambda>(w, avg_days). (w, fl avg_days)) (shipment_time_query db)) Map.empty"

definition fl_pair_velocity ::
  "(real \<Rightarrow> real) \<Rightarrow> ((string \<times> string) \<rightharpoonup> real) \<Rightarrow> string \<Rightarrow> string \<Rightarrow> real" where
  "fl_pair_velocity fl sales_velocity p w =
     (case sales_velocity (p, w) of Some v \<Rightarrow> v | None \<Rightarrow> fl (1 / 10))"

definition fl_safety_stock :: "(real \<Rightarrow> real) \<Rightarrow> int \<Rightarrow> real \<Rightarrow> real" where
  "fl_safety_stock fl safety_stock_days velocity = fl (velocity * fl (of_int safety_stock_days))"

definition fl_reorder_point :: "(real \<Rightarrow> real) \<Rightarrow> int \<Rightarrow> real \<Rightarrow> real \<Rightarrow> real" where
  "fl_reorder_point fl restock_threshold_days velocity avg_shipment_time =
     fl (velocity * fl (avg_shipment_time + fl (of_int restock_threshold_days)))"

definition fl_target_stock :: "(real \<Rightarrow> real) \<Rightarrow> int \<Rightarrow> real \<Rightarrow> real" where
  "fl_target_stock fl safety_stock_days velocity =
     fl (fl_safety_stock fl safety_stock_days velocity + fl (velocity * 30))"

definition fl_restock_entry ::
  "(real \<Rightarrow> real) \<Rightarrow> int \<Rightarrow> int \<Rightarrow> ((string \<times> string) \<rightharpoonup> real) \<Rightarrow> (string \<rightharpoonup> real)
     \<Rightarrow> (string \<times> string) \<times> inventory_data \<Rightarrow> py_error + recommendation option" where
  "fl_restock_entry fl safety_stock_days restock_threshold_days sales_velocity shipment_times item =
     (case item of ((p, w), inventory_data) \<Rightarrow>
        let available_qty = available_quantity inventory_data;
            velocity = fl_pair_velocity fl sales_velocity p w;
            avg_shipment_time = pair_shipment_time shipment_times w;
            safety_stock = fl_safety_stock fl safety_stock_days velocity;
            reorder_point = fl_reorder_point fl restock_threshold_days velocity avg_shipment_time
        in if of_int available_qty \<le> reorder_point then
             let target_stock = fl_target_stock fl safety_stock_days velocity;
                 recommended_qty = max 1 (py_int (fl (target_stock - fl (of_int available_qty))))
             in if reorder_point = 0 then Inl ZeroDivisionError
                else Inr (Some
                  \<lparr>product_id = p,
                   warehouse_id = w,
                   recommended_restock_quantity = recommended_qty,
                   current_available_stock = available_qty,
                   sales_velocity_per_day = fl (py_round velocity 2),
                   avg_shipment_time_days = fl (py_round avg_shipment_time 1),
                   reorder_point = fl (py_round reorder_point 1),
                   safety_stock = fl (py_round safety_stock 1),
                   target_stock = fl (py_round target_stock 1),
                   urgency_score =
                     fl (py_round
                       (fl (fl (fl (reorder_point - fl (of_int available_qty)) / reorder_point) * 100))
                       1)\<rparr>)
           else Inr None)"

fun fl_restock_loop ::
  "(real \<Rightarrow> real) \<Rightarrow> int \<Rightarrow> int \<Rightarrow> ((string \<times> string) \<rightharpoonup> real) \<Rightarrow> (string \<rightharpoonup> real)
     \<Rightarrow> ((string \<times> string) \<times> inventory_data) list \<Rightarrow> recommendation list
     \<Rightarrow> py_error + recommendation list" where
  "fl_restock_loop fl ssd rtd sv st [] recommendations = Inr recommendations"
| "fl_restock_loop fl ssd rtd sv st (item # items) recommendations =
     (case fl_restock_entry fl ssd rtd sv st item of
        Inl e \<Rightarrow> Inl e
      | Inr None \<Rightarrow> fl_restock_loop fl ssd rtd sv st items recommendations
      | Inr (Some r) \<Rightarrow> fl_restock_loop fl ssd rtd sv st items (recommendations @ [r]))"

definition fl_calculate_restock_recommendations ::
  "(real \<Rightarrow> real) \<Rightarrow> database \<Rightarrow> date \<Rightarrow> int \<Rightarrow> int \<Rightarrow> py_error + recommendation list" where
  "fl_calculate_restock_recommendations fl db now safety_stock_days restock_threshold_days =
     (case fl_calculate_sales_velocity fl db now 30 of
        Inl e \<Rightarrow> Inl e
      | Inr sales_velocity \<Rightarrow>
          let shipment_times = fl_get_average_shipment_time fl db;
              current_inventory = get_current_inventory db
          in (case fl_restock_loop fl safety_stock_days restock_threshold_days sales_velocity
                     shipment_times current_inventory [] of
                Inl e \<Rightarrow> Inl e
              | Inr recommendations \<Rightarrow>
                  Inr (sort_key (\<lambda>x. - urgency_score x) recommendations)))"

section \<open>\<^verbatim>\<open>business_insights_decision_making_task3.py\<close>: the analytics aggregators\<close>

text \<open>\<^verbatim>\<open>MIN\<close> and \<^verbatim>\<open>MAX\<close> over the rows of a group (a group has at least one row).\<close>

definition sql_min :: "real list \<Rightarrow> real" where
  "sql_min xs = fold min (tl xs) (hd xs)"

definition sql_max :: "real list \<Rightarrow> real" where
  "sql_max xs = fold max (tl xs) (hd xs)"

text \<open>
  A \<^verbatim>\<open>LEFT JOIN\<close>: the matching rows, or one row of NULLs when there is none.
\<close>

definition left_join :: "'a list \<Rightarrow> 'a option list" where
  "left_join matches = (if matches = [] then [None] else map Some matches)"

subsection \<open>Carrier delivery performance\<close>

record carrier_performance =
  cp_carrier_id :: string
  cp_service_level :: string
  total_shipments :: nat
  avg_delivery_days :: real
  min_delivery_days :: real
  max_delivery_days :: real
  avg_delay_days :: real
  on_time_percentage :: real

text \<open>The query: one row for each carrier and service level among the delivered shipments.\<close>

definition carrier_performance_query :: "database \<Rightarrow> carrier_performance list" where
  "carrier_performance_query db =
     (let rows = delivered_shipments db;
          key = (\<lambda>(s, a). (s_carrier_id s, s_service_level s))
      in sort_key (\<lambda>r. (cp_carrier_id r, cp_service_level r))
           (map (\<lambda>k.
              let g = group_rows key rows k;
                  delivery_days = map (\<lambda>(s, a). of_int (a - s_ship_date s)) g
              in \<lparr>cp_carrier_id = fst k,
                  cp_service_level = snd k,
                  total_shipments = length g,
                  avg_delivery_days = sql_avg delivery_days,
                  min_delivery_days = sql_min delivery_days,
                  max_delivery_days = sql_max delivery_days,
                  avg_delay_days = sql_avg (map (\<lambda>(s, a). of_int (a - s_estimated_delivery s)) g),
                  on_time_percentage =
                    of_nat (length (filter (\<lambda>(s, a). a \<le> s_estimated_delivery s) g)) * 100
                      / of_nat (length g)\<rparr>)
            (group_keys key rows)))"

text \<open>The loop over \<^verbatim>\<open>numerical_cols\<close>: each of the five columns rounded to 2 decimals.\<close>

definition carrier_round :: "carrier_performance \<Rightarrow> carrier_performance" where
  "carrier_round r =
     r\<lparr>avg_delivery_days := py_round (avg_delivery_days r) 2,
       min_delivery_days := py_round (min_delivery_days r) 2,
       max_delivery_days := py_round (max_delivery_days r) 2,
       avg_delay_days := py_round (avg_delay_days r) 2,
       on_time_percentage := py_round (on_time_percentage r) 2\<rparr>"

definition calculate_carrier_delivery_performance :: "database \<Rightarrow> carrier_performance list" where
  "calculate_carrier_delivery_performance db = map carrier_round (carrier_performance_query db)"

subsection \<open>Top-selling products\<close>

record top_product =
  tp_product_id :: string
  tp_product_name :: string
  tp_product_category :: string
  tp_unit_price :: real
  total_units_sold :: int
  total_orders :: nat
  total_revenue :: real
  avg_order_quantity :: real
  unique_customers :: nat

text \<open>
  The query: products joined to their recent shipped or delivered orders, grouped by
  product, ordered by the units sold, the first five.
\<close>

definition top_selling_query :: "database \<Rightarrow> date \<Rightarrow> top_product list" where
  "top_selling_query db cutoff_date =
     (let joined = [(p, ord). p \<leftarrow> product db, ord \<leftarrow> orders db,
                      p_product_id p = o_product_id ord,
                      cutoff_date \<le> o_order_date ord,
                      o_order_status ord = ''Shipped'' \<or> o_order_status ord = ''Delivered''];
          key = (\<lambda>(p, ord). (p_product_id p, p_product_name p, p_product_category p, p_unit_price p));
          groups = map (\<lambda>k.
              let g = group_rows key joined k
              in (case k of (pid, name, category, price) \<Rightarrow>
                 \<lparr>tp_product_id = pid,
                  tp_product_name = name,
                  tp_product_category = category,
                  tp_unit_price = price,
                  total_units_sold = sum_list (map (\<lambda>(p, ord). o_quantity ord) g),
                  total_orders = length (remdups (map (\<lambda>(p, ord). o_order_id ord) g)),
                  total_revenue = sum_list (map (\<lambda>(p, ord). of_int (o_quantity ord) * p_unit_price p) g),
                  avg_order_quantity = sql_avg (map (\<lambda>(p, ord). of_int (o_quantity ord)) g),
                  unique_customers = length (remdups (map (\<lambda>(p, ord). o_customer_id ord) g))\<rparr>))
            (group_keys key joined)
      in take 5 (sort_key (\<lambda>r. - total_units_sold r) groups))"

definition top_product_round :: "top_product \<Rightarrow> top_product" where
  "top_product_round r =
     r\<lparr>total_revenue := py_round (total_revenue r) 2,
       avg_order_quantity := py_round (avg_order_quantity r) 2,
       tp_unit_price := py_round (tp_unit_price r) 2\<rparr>"

definition identify_top_selling_products :: "database \<Rightarrow> date \<Rightarrow> int \<Rightarrow> top_product list" where
  "identify_top_selling_products db now days =
     map top_product_round (top_selling_query db (now - days))"

subsection \<open>Inventory shortages\<close>

record demand_row =
  da_product_id :: string
  da_warehouse_id :: string
  order_frequency :: nat
  total_demand_30days :: int
  avg_demand_per_order :: real
  da_daily_demand_rate :: real

text \<open>The common table expression \<^verbatim>\<open>demand_analysis\<close>.\<close>

definition demand_analysis :: "database \<Rightarrow> date \<Rightarrow> demand_row list" where
  "demand_analysis db now =
     (let joined = [(ord, s). ord \<leftarrow> orders db, s \<leftarrow> shipment db,
                      o_order_id ord = s_order_id s,
                      now - 30 \<le> o_order_date ord,
                      o_order_status ord = ''Shipped'' \<or> o_order_status ord = ''Delivered''];
          key = (\<lambda>(ord, s). (o_product_id ord, s_warehouse_id s))
      in map (\<lambda>k.
           let g = group_rows key joined k
           in \<lparr>da_product_id = fst k,
               da_warehouse_id = snd k,
               order_frequency = length g,
               total_demand_30days = sum_list (map (\<lambda>(ord, s). o_quantity ord) g),
               avg_demand_per_order = sql_avg (map (\<lambda>(ord, s). of_int (o_quantity ord)) g),
               da_daily_demand_rate = of_int (sum_list (map (\<lambda>(ord, s). o_quantity ord) g)) / 30\<rparr>)
         (group_keys key joined))"

text \<open>
  SQLite's division gives NULL for a zero divisor, and a \<^verbatim>\<open>WHEN\<close> whose comparison is NULL
  is not taken.
\<close>

definition sql_div :: "real \<Rightarrow> real \<Rightarrow> real option" where
  "sql_div a b = (if b = 0 then None else Some (a / b))"

definition sql_when_less :: "real option \<Rightarrow> real \<Rightarrow> bool" where
  "sql_when_less x c = (case x of None \<Rightarrow> False | Some v \<Rightarrow> v < c)"

text \<open>\<^verbatim>\<open>COALESCE(da.daily_demand_rate, 0.1)\<close>, \<open>da\<close> being NULL when the pair has no demand row.\<close>

definition coalesce_rate :: "demand_row option \<Rightarrow> real" where
  "coalesce_rate da = (case da of None \<Rightarrow> 1 / 10 | Some d \<Rightarrow> da_daily_demand_rate d)"

text \<open>The two \<^verbatim>\<open>CASE\<close> expressions of the query.\<close>

definition days_of_stock_case :: "int \<Rightarrow> demand_row option \<Rightarrow> real" where
  "days_of_stock_case available da =
     (if available = 0 then 0
      else if 0 < coalesce_rate da then of_int available / coalesce_rate da
      else 999)"

definition stock_status_case :: "int \<Rightarrow> demand_row option \<Rightarrow> string" where
  "stock_status_case available da =
     (if available = 0 then ''OUT_OF_STOCK''
      else if sql_when_less (sql_div (of_int available) (coalesce_rate da)) 7 then ''CRITICAL''
      else if sql_when_less (sql_div (of_int available) (coalesce_rate da)) 14 then ''LOW''
      else ''ADEQUATE'')"

record shortage_row =
  sh_warehouse_id :: string
  sh_warehouse_name :: string
  sh_location :: string
  sh_product_id :: string
  sh_product_name :: "string option"
  sh_product_category :: "string option"
  available_stock :: int
  daily_demand_rate :: real
  demand_last_30days :: int
  days_of_stock :: real
  stock_status :: string

text \<open>
  The keys of \<^verbatim>\<open>ORDER BY\<close>: the warehouse, the rank of the status, and the demand rate of
  \<open>da\<close> descending, where SQLite puts the NULLs last.
\<close>

definition status_rank :: "string \<Rightarrow> nat" where
  "status_rank s =
     (if s = ''OUT_OF_STOCK'' then 1 else if s = ''CRITICAL'' then 2
      else if s = ''LOW'' then 3 else 4)"

definition rate_desc_key :: "demand_row option \<Rightarrow> nat \<times> real" where
  "rate_desc_key da = (case da of None \<Rightarrow> (1, 0) | Some d \<Rightarrow> (0, - da_daily_demand_rate d))"

text \<open>The \<^verbatim>\<open>SELECT\<close> list for one joined row, \<open>da\<close> and \<open>p\<close> coming from the left joins.\<close>

definition shortage_select ::
  "warehouse_row \<Rightarrow> inventory_row \<Rightarrow> demand_row option \<Rightarrow> product_row option \<Rightarrow> shortage_row" where
  "shortage_select w ci da p =
     (let ci_available_stock = i_stock_quantity ci - i_reserved_quantity ci
      in \<lparr>sh_warehouse_id = w_warehouse_id w,
          sh_warehouse_name = w_warehouse_name w,
          sh_location = w_location w,
          sh_product_id = i_product_id ci,
          sh_product_name = map_option p_product_name p,
          sh_product_category = map_option p_product_category p,
          available_stock = ci_available_stock,
          daily_demand_rate = coalesce_rate da,
          demand_last_30days = (case da of None \<Rightarrow> 0 | Some d \<Rightarrow> total_demand_30days d),
          days_of_stock = days_of_stock_case ci_available_stock da,
          stock_status = stock_status_case ci_available_stock da\<rparr>)"

definition shortage_order_key :: "shortage_row \<times> demand_row option \<Rightarrow> string \<times> nat \<times> nat \<times> real" where
  "shortage_order_key x =
     (case x of (r, da) \<Rightarrow> (sh_warehouse_id r, status_rank (stock_status r), rate_desc_key da))"

definition shortage_query :: "database \<Rightarrow> date \<Rightarrow> shortage_row list" where
  "shortage_query db now =
     map fst (sort_key shortage_order_key
       [(shortage_select w ci da p, da).
          w \<leftarrow> warehouse db,
          ci \<leftarrow> inventory db,
          da \<leftarrow> left_join (filter (\<lambda>d. i_product_id ci = da_product_id d
                                        \<and> i_warehouse_id ci = da_warehouse_id d)
                                (demand_analysis db now)),
          p \<leftarrow> left_join (filter (\<lambda>p. i_product_id ci = p_product_id p) (product db)),
          i_warehouse_id ci = w_warehouse_id w])"

definition shortage_round :: "shortage_row \<Rightarrow> shortage_row" where
  "shortage_round r =
     r\<lparr>daily_demand_rate := py_round (daily_demand_rate r) 3,
       days_of_stock := py_round (days_of_stock r) 1\<rparr>"

definition analyze_inventory_shortages :: "database \<Rightarrow> date \<Rightarrow> shortage_row list" where
  "analyze_inventory_shortages db now = map shortage_round (shortage_query db now)"

section \<open>Example databases\<close>

text \<open>
  \<open>db_slow\<close>: no sales, one delivery that took 50 days, 5 units available.
  \<open>db_two\<close>: two units of P1 sold from W1 in the window; P1 is out of stock, P2 has one
  unit, P3 has 200. \<open>db_zero\<close>: as \<open>db_two\<close> for P1, with an order of quantity 0.
\<close>

definition db_slow :: database where
  "db_slow = \<lparr>orders = [],
     shipment = [\<lparr>s_shipment_id = ''S1'', s_order_id = ''O1'', s_warehouse_id = ''W1'',
        s_carrier_id = ''A'', s_service_level = ''Standard'', s_shipment_status = ''Delivered'',
        s_ship_date = 0, s_estimated_delivery = 5, s_actual_delivery = Some 50,
        s_tracking_number = ''T1''\<rparr>],
     inventory = [\<lparr>i_product_id = ''P1'', i_warehouse_id = ''W1'', i_stock_quantity = 5,
        i_reserved_quantity = 0\<rparr>],
     product = [], warehouse = []\<rparr>"

definition slow_recommendation :: recommendation where
  "slow_recommendation = \<lparr>product_id = ''P1'', warehouse_id = ''W1'',
         recommended_restock_quantity = 1, current_available_stock = 5,
         sales_velocity_per_day = 1 / 10, avg_shipment_time_days = 50,
         reorder_point = 57 / 10, safety_stock = 7 / 5,
         target_stock = 22 / 5, urgency_score = 123 / 10\<rparr>"

definition db_two :: database where
  "db_two = \<lparr>orders = [\<lparr>o_order_id = ''O1'', o_customer_id = ''C1'', o_product_id = ''P1'',
        o_order_date = 50, o_order_status = ''Shipped'', o_quantity = 2\<rparr>],
     shipment = [\<lparr>s_shipment_id = ''S1'', s_order_id = ''O1'', s_warehouse_id = ''W1'',
        s_carrier_id = ''A'', s_service_level = ''Standard'', s_shipment_status = ''In Transit'',
        s_ship_date = 51, s_estimated_delivery = 56, s_actual_delivery = None,
        s_tracking_number = ''T1''\<rparr>],
     inventory = [
       \<lparr>i_product_id = ''P2'', i_warehouse_id = ''W1'', i_stock_quantity = 3,
        i_reserved_quantity = 2\<rparr>,
       \<lparr>i_product_id = ''P1'', i_warehouse_id = ''W1'', i_stock_quantity = 0,
        i_reserved_quantity = 0\<rparr>,
       \<lparr>i_product_id = ''P3'', i_warehouse_id = ''W1'', i_stock_quantity = 200,
        i_reserved_quantity = 0\<rparr>],
     product = [], warehouse = []\<rparr>"

definition db_zero :: database where
  "db_zero = \<lparr>orders = [\<lparr>o_order_id = ''O1'', o_customer_id = ''C1'', o_product_id = ''P1'',
        o_order_date = 50, o_order_status = ''Shipped'', o_quantity = 0\<rparr>],
     shipment = [\<lparr>s_shipment_id = ''S1'', s_order_id = ''O1'', s_warehouse_id = ''W1'',
        s_carrier_id = ''A'', s_service_level = ''Standard'', s_shipment_status = ''In Transit'',
        s_ship_date = 51, s_estimated_delivery = 56, s_actual_delivery = None,
        s_tracking_number = ''T1''\<rparr>],
     inventory = [\<lparr>i_product_id = ''P1'', i_warehouse_id = ''W1'', i_stock_quantity = 0,
        i_reserved_quantity = 0\<rparr>],
     product = [], warehouse = []\<rparr>"

text \<open>\<open>db_same_day\<close>: one shipment of W1, delivered on the day it was shipped.\<close>

definition db_same_day :: database where
  "db_same_day = \<lparr>orders = [],
     shipment = [\<lparr>s_shipment_id = ''S1'', s_order_id = ''O1'', s_warehouse_id = ''W1'',
        s_carrier_id = ''A'', s_service_level = ''Overnight'', s_shipment_status = ''Delivered'',
        s_ship_date = 40, s_estimated_delivery = 41, s_actual_delivery = Some 40,
        s_tracking_number = ''T1''\<rparr>],
     inventory = [], product = [], warehouse = []\<rparr>"

text \<open>
  The recommended quantity as the specification words it,
  \<^verbatim>\<open>max(1, round(target_stock - available_quantity))\<close>, to be compared with what the loop
  body computes.
\<close>

definition spec_recommended_quantity :: "real \<Rightarrow> int \<Rightarrow> int" where
  "spec_recommended_quantity target available = max 1 (round_half_even (target - of_int available))"

text \<open>What the engine returns on \<open>db_two\<close>, and the velocities it reads there.\<close>

definition p1_recommendation :: recommendation where
  "p1_recommendation =
     \<lparr>product_id = ''P1'', warehouse_id = ''W1'',
      recommended_restock_quantity = 2, current_available_stock = 0,
      sales_velocity_per_day = 7 / 100, avg_shipment_time_days = 5,
      reorder_point = 4 / 5, safety_stock = 9 / 10,
      target_stock = 29 / 10, urgency_score = 100\<rparr>"

definition p2_recommendation :: recommendation where
  "p2_recommendation =
     \<lparr>product_id = ''P2'', warehouse_id = ''W1'',
      recommended_restock_quantity = 3, current_available_stock = 1,
      sales_velocity_per_day = 1 / 10, avg_shipment_time_days = 5,
      reorder_point = 6 / 5, safety_stock = 7 / 5, target_stock = 22 / 5,
      urgency_score = 167 / 10\<rparr>"

definition two_velocity :: "(string \<times> string) \<rightharpoonup> real" where
  "two_velocity = [(''P1'', ''W1'') \<mapsto> 1 / 15]"

text \<open>
  \<open>db_shop\<close>: the scenario of the specification (60 units of P1 sold from W1 in the window),
  with a late and an early delivery. \<open>db_six\<close>: six products with sales. \<open>db_late\<close>: 20000
  deliveries on time and one late, all of one carrier and service level.
\<close>

definition db_shop :: database where
  "db_shop = \<lparr>
     orders = [
       \<lparr>o_order_id = ''O1'', o_customer_id = ''C1'', o_product_id = ''P1'',
        o_order_date = 50, o_order_status = ''Shipped'', o_quantity = 60\<rparr>,
       \<lparr>o_order_id = ''O2'', o_customer_id = ''C2'', o_product_id = ''P2'',
        o_order_date = 55, o_order_status = ''Delivered'', o_quantity = 3\<rparr>],
     shipment = [
       \<lparr>s_shipment_id = ''S1'', s_order_id = ''O1'', s_warehouse_id = ''W1'',
        s_carrier_id = ''A'', s_service_level = ''Standard'', s_shipment_status = ''Delivered'',
        s_ship_date = 51, s_estimated_delivery = 54, s_actual_delivery = Some 55,
        s_tracking_number = ''T1''\<rparr>,
       \<lparr>s_shipment_id = ''S2'', s_order_id = ''O2'', s_warehouse_id = ''W1'',
        s_carrier_id = ''A'', s_service_level = ''Standard'', s_shipment_status = ''Delivered'',
        s_ship_date = 56, s_estimated_delivery = 59, s_actual_delivery = Some 58,
        s_tracking_number = ''T2''\<rparr>],
     inventory = [
       \<lparr>i_product_id = ''P1'', i_warehouse_id = ''W1'', i_stock_quantity = 25,
        i_reserved_quantity = 5\<rparr>,
       \<lparr>i_product_id = ''P2'', i_warehouse_id = ''W1'', i_stock_quantity = 4,
        i_reserved_quantity = 4\<rparr>,
       \<lparr>i_product_id = ''P3'', i_warehouse_id = ''W1'', i_stock_quantity = 1,
        i_reserved_quantity = 0\<rparr>],
     product = [
       \<lparr>p_product_id = ''P1'', p_product_name = ''N1'', p_product_category = ''Books'',
        p_unit_price = 10\<rparr>,
       \<lparr>p_product_id = ''P2'', p_product_name = ''N2'', p_product_category = ''Toys'',
        p_unit_price = 5 / 2\<rparr>],
     warehouse = [
       \<lparr>w_warehouse_id = ''W1'', w_warehouse_name = ''Main'', w_location = ''X'',
        w_capacity = 1000\<rparr>]\<rparr>"


definition db_six :: database where
  "db_six = \<lparr>
     orders = [
       \<lparr>o_order_id = ''O1'', o_customer_id = ''C1'', o_product_id = ''P1'',
        o_order_date = 50, o_order_status = ''Shipped'', o_quantity = 4\<rparr>,
       \<lparr>o_order_id = ''O2'', o_customer_id = ''C1'', o_product_id = ''P2'',
        o_order_date = 50, o_order_status = ''Shipped'', o_quantity = 9\<rparr>,
       \<lparr>o_order_id = ''O3'', o_customer_id = ''C1'', o_product_id = ''P3'',
        o_order_date = 50, o_order_status = ''Shipped'', o_quantity = 1\<rparr>,
       \<lparr>o_order_id = ''O4'', o_customer_id = ''C1'', o_product_id = ''P4'',
        o_order_date = 50, o_order_status = ''Shipped'', o_quantity = 7\<rparr>,
       \<lparr>o_order_id = ''O5'', o_customer_id = ''C1'', o_product_id = ''P5'',
        o_order_date = 50, o_order_status = ''Shipped'', o_quantity = 2\<rparr>,
       \<lparr>o_order_id = ''O6'', o_customer_id = ''C1'', o_product_id = ''P6'',
        o_order_date = 50, o_order_status = ''Shipped'', o_quantity = 5\<rparr>,
       \<lparr>o_order_id = ''O7'', o_customer_id = ''C2'', o_product_id = ''P1'',
        o_order_date = 52, o_order_status = ''Delivered'', o_quantity = 4\<rparr>],
     shipment = [], inventory = [],
     product = [
       \<lparr>p_product_id = ''P1'', p_product_name = ''N1'', p_product_category = ''B'', p_unit_price = 1\<rparr>,
       \<lparr>p_product_id = ''P2'', p_product_name = ''N2'', p_product_category = ''B'', p_unit_price = 1\<rparr>,
       \<lparr>p_product_id = ''P3'', p_product_name = ''N3'', p_product_category = ''B'', p_unit_price = 1\<rparr>,
       \<lparr>p_product_id = ''P4'', p_product_name = ''N4'', p_product_category = ''B'', p_unit_price = 1\<rparr>,
       \<lparr>p_product_id = ''P5'', p_product_name = ''N5'', p_product_category = ''B'', p_unit_price = 1\<rparr>,
       \<lparr>p_product_id = ''P6'', p_product_name = ''N6'', p_product_category = ''B'', p_unit_price = 1\<rparr>],
     warehouse = []\<rparr>"

definition on_time_shipment :: shipment_row where
  "on_time_shipment =
     \<lparr>s_shipment_id = ''S1'', s_order_id = ''O1'', s_warehouse_id = ''W1'',
      s_carrier_id = ''A'', s_service_level = ''Standard'', s_shipment_status = ''Delivered'',
      s_ship_date = 10, s_estimated_delivery = 13, s_actual_delivery = Some 12,
      s_tracking_number = ''T1''\<rparr>"

definition late_shipment :: shipment_row where
  "late_shipment =
     \<lparr>s_shipment_id = ''S2'', s_order_id = ''O2'', s_warehouse_id = ''W1'',
      s_carrier_id = ''A'', s_service_level = ''Standard'', s_shipment_status = ''Delivered'',
      s_ship_date = 10, s_estimated_delivery = 13, s_actual_delivery = Some 14,
      s_tracking_number = ''T2''\<rparr>"

definition db_late :: database where
  "db_late = \<lparr>orders = [], shipment = replicate 20000 on_time_shipment @ [late_shipment],
     inventory = [], product = [], warehouse = []\<rparr>"

definition same_day_performance :: carrier_performance where
  "same_day_performance =
     \<lparr>cp_carrier_id = ''A'', cp_service_level = ''Overnight'', total_shipments = 1,
      avg_delivery_days = 0, min_delivery_days = 0, max_delivery_days = 0,
      avg_delay_days = - 1, on_time_percentage = 100\<rparr>"

definition shop_performance :: carrier_performance where
  "shop_performance =
     \<lparr>cp_carrier_id = ''A'', cp_service_level = ''Standard'', total_shipments = 2,
      avg_delivery_days = 3, min_delivery_days = 2, max_delivery_days = 4,
      avg_delay_days = 0, on_time_percentage = 50\<rparr>"

definition p2_shortage :: shortage_row where
  "p2_shortage =
     \<lparr>sh_warehouse_id = ''W1'', sh_warehouse_name = ''Main'',
      sh_location = ''X'', sh_product_id = ''P2'',
      sh_product_name = Some ''N2'', sh_product_category = Some ''Toys'',
      available_stock = 0, daily_demand_rate = 1 / 10,
      demand_last_30days = 3, days_of_stock = 0,
      stock_status = ''OUT_OF_STOCK''\<rparr>"

definition p1_shortage :: shortage_row where
  "p1_shortage =
     \<lparr>sh_warehouse_id = ''W1'', sh_warehouse_name = ''Main'',
      sh_location = ''X'', sh_product_id = ''P1'',
      sh_product_name = Some ''N1'', sh_product_category = Some ''Books'',
      available_stock = 20, daily_demand_rate = 2, demand_last_30days = 60,
      days_of_stock = 10, stock_status = ''LOW''\<rparr>"

definition p3_shortage :: shortage_row where
  "p3_shortage =
     \<lparr>sh_warehouse_id = ''W1'', sh_warehouse_name = ''Main'',
      sh_location = ''X'', sh_product_id = ''P3'', sh_product_name = None,
      sh_product_category = None, available_stock = 1,
      daily_demand_rate = 1 / 10, demand_last_30days = 0, days_of_stock = 10,
      stock_status = ''LOW''\<rparr>"

text \<open>
  \<open>db_many\<close>: 123 units of P1 sold from W1, none in stock. \<open>db_boundary\<close>: 9 units sold,
  deliveries of 1, 1 and 17 days, 4 units in stock, which is the reorder point over the
  reals. \<open>db_orphan\<close>: an inventory row whose warehouse W9 is not in the warehouse table.
\<close>

definition db_many :: database where
  "db_many = \<lparr>orders = [\<lparr>o_order_id = ''O1'', o_customer_id = ''C1'', o_product_id = ''P1'',
        o_order_date = 50, o_order_status = ''Shipped'', o_quantity = 123\<rparr>],
     shipment = [\<lparr>s_shipment_id = ''S1'', s_order_id = ''O1'', s_warehouse_id = ''W1'',
        s_carrier_id = ''A'', s_service_level = ''Standard'', s_shipment_status = ''In Transit'',
        s_ship_date = 51, s_estimated_delivery = 56, s_actual_delivery = None,
        s_tracking_number = ''T1''\<rparr>],
     inventory = [\<lparr>i_product_id = ''P1'', i_warehouse_id = ''W1'', i_stock_quantity = 0,
        i_reserved_quantity = 0\<rparr>],
     product = [], warehouse = []\<rparr>"

definition db_boundary :: database where
  "db_boundary = \<lparr>orders = [\<lparr>o_order_id = ''O1'', o_customer_id = ''C1'', o_product_id = ''P1'',
        o_order_date = 50, o_order_status = ''Delivered'', o_quantity = 9\<rparr>],
     shipment = [
       \<lparr>s_shipment_id = ''S1'', s_order_id = ''O1'', s_warehouse_id = ''W1'',
        s_carrier_id = ''A'', s_service_level = ''Standard'', s_shipment_status = ''Delivered'',
        s_ship_date = 51, s_estimated_delivery = 56, s_actual_delivery = Some 52,
        s_tracking_number = ''T1''\<rparr>,
       \<lparr>s_shipment_id = ''S2'', s_order_id = ''O2'', s_warehouse_id = ''W1'',
        s_carrier_id = ''A'', s_service_level = ''Standard'', s_shipment_status = ''Delivered'',
        s_ship_date = 51, s_estimated_delivery = 56, s_actual_delivery = Some 52,
        s_tracking_number = ''T2''\<rparr>,
       \<lparr>s_shipment_id = ''S3'', s_order_id = ''O3'', s_warehouse_id = ''W1'',
        s_carrier_id = ''A'', s_service_level = ''Standard'', s_shipment_status = ''Delivered'',
        s_ship_date = 40, s_estimated_delivery = 45, s_actual_delivery = Some 57,
        s_tracking_number = ''T3''\<rparr>],
     inventory = [\<lparr>i_product_id = ''P1'', i_warehouse_id = ''W1'', i_stock_quantity = 4,
        i_reserved_quantity = 0\<rparr>],
     product = [], warehouse = []\<rparr>"

definition db_orphan :: database where
  "db_orphan = \<lparr>orders = [], shipment = [],
     inventory = [\<lparr>i_product_id = ''P1'', i_warehouse_id = ''W9'', i_stock_quantity = 5,
        i_reserved_quantity = 0\<rparr>],
     product = [\<lparr>p_product_id = ''P1'', p_product_name = ''N1'', p_product_category = ''Books'',
        p_unit_price = 10\<rparr>],
     warehouse = [\<lparr>w_warehouse_id = ''W1'', w_warehouse_name = ''Main'', w_location = ''X'',
        w_capacity = 1000\<rparr>]\<rparr>"

section \<open>Properties of the recommendation engine\<close>

lemma restock_loop_set:
  "restock_loop ssd rtd sv st items acc = Inr recs \<Longrightarrow>
   set recs = set acc \<union> {r. \<exists>item \<in> set items. restock_entry ssd rtd sv st item = Inr (Some r)}"
proof (induction items arbitrary: acc)
  case Nil
  then show ?case by simp
next
  case (Cons item items)
  show ?case
  proof (cases "restock_entry ssd rtd sv st item")
    case (Inl e)
    with Cons.prems show ?thesis by simp
  next
    case (Inr res)
    show ?thesis
    proof (cases res)
      case None
      with Inr Cons.prems have "restock_loop ssd rtd sv st items acc = Inr recs" by simp
      from Cons.IH [OF this] Inr None show ?thesis by auto
    next
      case (Some r)
      with Inr Cons.prems have "restock_loop ssd rtd sv st items (acc @ [r]) = Inr recs" by simp
      from Cons.IH [OF this] Inr Some show ?thesis by auto
    qed
  qed
qed

lemma restock_loop_no_error:
  "restock_loop ssd rtd sv st items acc = Inr recs \<Longrightarrow> item \<in> set items \<Longrightarrow>
   restock_entry ssd rtd sv st item \<noteq> Inl e"
proof (induction items arbitrary: acc)
  case Nil
  then show ?case by simp
next
  case (Cons a items)
  then show ?case
    by (cases "restock_entry ssd rtd sv st a") (auto split: option.splits)
qed

lemma restock_loop_error:
  "item \<in> set items \<Longrightarrow> restock_entry ssd rtd sv st item = Inl e \<Longrightarrow>
   \<exists>e'. restock_loop ssd rtd sv st items acc = Inl e'"
proof (induction items arbitrary: acc)
  case Nil
  then show ?case by simp
next
  case (Cons a items)
  then show ?case
    by (cases "restock_entry ssd rtd sv st a") (auto split: option.splits)
qed

lemma restock_entry_Some:
  assumes "restock_entry ssd rtd sv st ((p, w), d) = Inr (Some r)"
  shows "product_id r = p" and "warehouse_id r = w"
    and "current_available_stock r = available_quantity d"
    and "of_int (available_quantity d)
           \<le> pair_reorder_point rtd (pair_velocity sv p w) (pair_shipment_time st w)"
    and "pair_reorder_point rtd (pair_velocity sv p w) (pair_shipment_time st w) \<noteq> 0"
    and "recommended_restock_quantity r =
           max 1 (py_int (pair_target_stock ssd (pair_velocity sv p w) - of_int (available_quantity d)))"
    and "urgency_score r =
           py_round ((pair_reorder_point rtd (pair_velocity sv p w) (pair_shipment_time st w)
                       - of_int (available_quantity d))
                     / pair_reorder_point rtd (pair_velocity sv p w) (pair_shipment_time st w) * 100) 1"
  using assms by (auto simp: restock_entry_def Let_def split: if_splits)

lemma restock_entry_None:
  "restock_entry ssd rtd sv st ((p, w), d) = Inr None \<longleftrightarrow>
   pair_reorder_point rtd (pair_velocity sv p w) (pair_shipment_time st w) < of_int (available_quantity d)"
  by (auto simp: restock_entry_def Let_def split: if_splits)

lemma restock_entry_Inl:
  "restock_entry ssd rtd sv st ((p, w), d) = Inl e \<longleftrightarrow>
   of_int (available_quantity d) \<le> pair_reorder_point rtd (pair_velocity sv p w) (pair_shipment_time st w)
   \<and> pair_reorder_point rtd (pair_velocity sv p w) (pair_shipment_time st w) = 0"
  by (cases e) (auto simp: restock_entry_def Let_def split: if_splits)

lemma inventory_loop_distinct:
  "distinct (map fst acc) \<Longrightarrow> distinct (map fst (inventory_loop rows acc))"
  by (induction rows arbitrary: acc) (simp_all add: Let_def AList.distinct_update)

lemma get_current_inventory_distinct: "distinct (map fst (get_current_inventory db))"
  by (simp add: get_current_inventory_def inventory_loop_distinct)

lemma calculate_restock_recommendations_Inr:
  assumes "calculate_restock_recommendations db now ssd rtd = Inr recs"
  obtains sv recs0 where "calculate_sales_velocity db now 30 = Inr sv"
    and "restock_loop ssd rtd sv (get_average_shipment_time db) (get_current_inventory db) [] = Inr recs0"
    and "recs = sort_key (\<lambda>x. - urgency_score x) recs0"
  using assms
  by (auto simp: calculate_restock_recommendations_def Let_def split: sum.splits)


lemmas restock_defs = calculate_restock_recommendations_def calculate_sales_velocity_def
  sales_velocity_query_def get_average_shipment_time_def shipment_time_query_def
  get_current_inventory_def delivered_shipments_def group_keys_def group_rows_def sql_avg_def
  restock_entry_def pair_velocity_def pair_shipment_time_def pair_safety_stock_def
  pair_reorder_point_def pair_target_stock_def py_int_def py_round_def round_half_even_def
  Let_def

text \<open>
  C6: every record that \<^verbatim>\<open>calculate_restock_recommendations\<close> returns carries a
  recommended quantity of at least 1, whatever the inputs, also when the target stock minus
  the available quantity is zero or negative.
\<close>

theorem recommended_quantity_at_least_one:
  assumes "calculate_restock_recommendations db now ssd rtd = Inr recs" and "r \<in> set recs"
  shows "1 \<le> recommended_restock_quantity r"
proof -
  from assms(1) obtain sv recs0 where
    loop: "restock_loop ssd rtd sv (get_average_shipment_time db) (get_current_inventory db) []
             = Inr recs0"
    and recs: "recs = sort_key (\<lambda>x. - urgency_score x) recs0"
    by (rule calculate_restock_recommendations_Inr)
  from assms(2) recs have "r \<in> set recs0" by simp
  with restock_loop_set [OF loop] obtain item where
    "restock_entry ssd rtd sv (get_average_shipment_time db) item = Inr (Some r)" by auto
  then show ?thesis
    by (cases item) (auto dest: restock_entry_Some(6))
qed

text \<open>
  A warehouse whose only delivery took 50 days: the pair is at its reorder point with more
  stock than the target, and the recommendation is 1.
\<close>

theorem recommended_quantity_at_least_one_witness:
  "calculate_restock_recommendations db_slow 60 14 7 = Inr [slow_recommendation]
   \<and> pair_target_stock 14 (1 / 10) - of_int (current_available_stock slow_recommendation) < 0
   \<and> 1 \<le> recommended_restock_quantity slow_recommendation"
proof -
  have run: "calculate_restock_recommendations db_slow 60 14 7 = Inr [slow_recommendation]"
    by (simp add: restock_defs db_slow_def slow_recommendation_def)
  have mem: "slow_recommendation \<in> set [slow_recommendation]" by simp
  have "pair_target_stock 14 (1 / 10) - of_int (current_available_stock slow_recommendation) < 0"
    by (simp add: pair_target_stock_def pair_safety_stock_def slow_recommendation_def)
  with recommended_quantity_at_least_one [OF run mem] run show ?thesis by simp
qed

lemma db_two_run:
  "calculate_restock_recommendations db_two 60 14 7 = Inr [p1_recommendation, p2_recommendation]"
  by (simp add: restock_defs db_two_def p1_recommendation_def p2_recommendation_def)

lemma db_two_velocity: "calculate_sales_velocity db_two 60 30 = Inr two_velocity"
  by (simp add: restock_defs db_two_def two_velocity_def)


lemma db_two_inventory:
  "get_current_inventory db_two =
    [((''P2'', ''W1''), \<lparr>stock_quantity = 3, reserved_quantity = 2, available_quantity = 1\<rparr>),
     ((''P1'', ''W1''), \<lparr>stock_quantity = 0, reserved_quantity = 0, available_quantity = 0\<rparr>),
     ((''P3'', ''W1''), \<lparr>stock_quantity = 200, reserved_quantity = 0, available_quantity = 200\<rparr>)]"
  by (simp add: restock_defs db_two_def)


lemma restock_run_no_error:
  assumes run: "calculate_restock_recommendations db now ssd rtd = Inr recs"
    and sv: "calculate_sales_velocity db now 30 = Inr sv"
    and item: "item \<in> set (get_current_inventory db)"
  shows "restock_entry ssd rtd sv (get_average_shipment_time db) item \<noteq> Inl e"
proof -
  from run obtain sv' recs0 where
    "calculate_sales_velocity db now 30 = Inr sv'"
    and loop': "restock_loop ssd rtd sv' (get_average_shipment_time db) (get_current_inventory db) []
                  = Inr recs0"
    by (rule calculate_restock_recommendations_Inr)
  with sv have "restock_loop ssd rtd sv (get_average_shipment_time db) (get_current_inventory db) []
                  = Inr recs0" by simp
  from restock_loop_no_error [OF this item] show ?thesis .
qed

subsection \<open>The engine on doubles\<close>

lemma ilog2_up_step: "2 \<le> x \<Longrightarrow> ilog2_up x = ilog2_up (x / 2) + 1"
  by (subst ilog2_up.simps) simp

lemma ilog2_up_stop: "x < 2 \<Longrightarrow> ilog2_up x = 0"
  by (subst ilog2_up.simps) simp

lemma ilog2_down_step: "0 < x \<Longrightarrow> x < 1 \<Longrightarrow> ilog2_down x = ilog2_down (2 * x) - 1"
  by (subst ilog2_down.simps) simp

lemma ilog2_down_stop: "1 \<le> x \<Longrightarrow> ilog2_down x = 0"
  by (subst ilog2_down.simps) simp

lemma double_round_zero: "double_round 0 = 0"
  by (simp add: double_round_def)

lemmas double_round_numeral =
  double_round_def [of "numeral a"] double_round_def [of "- numeral a"]
  double_round_def [of "numeral a / numeral b"] double_round_def [of "- (numeral a / numeral b)"]
  double_round_def [of "1 / numeral b"] double_round_def [of "- (1 / numeral b)"]
  double_round_def [of 1] double_round_def [of "- 1"]
  for a b

lemmas double_defs = double_round_zero double_round_numeral double_ulp_def float_exponent_def
  pow2_def ilog2_up_step ilog2_up_stop ilog2_down_step ilog2_down_stop

lemma fl_restock_loop_set:
  "fl_restock_loop fl ssd rtd sv st items acc = Inr recs \<Longrightarrow>
   set recs = set acc \<union> {r. \<exists>item \<in> set items. fl_restock_entry fl ssd rtd sv st item = Inr (Some r)}"
proof (induction items arbitrary: acc)
  case Nil
  then show ?case by simp
next
  case (Cons item items)
  show ?case
  proof (cases "fl_restock_entry fl ssd rtd sv st item")
    case (Inl e)
    with Cons.prems show ?thesis by simp
  next
    case (Inr res)
    show ?thesis
    proof (cases res)
      case None
      with Inr Cons.prems have "fl_restock_loop fl ssd rtd sv st items acc = Inr recs" by simp
      from Cons.IH [OF this] Inr None show ?thesis by auto
    next
      case (Some r)
      with Inr Cons.prems have "fl_restock_loop fl ssd rtd sv st items (acc @ [r]) = Inr recs"
        by simp
      from Cons.IH [OF this] Inr Some show ?thesis by auto
    qed
  qed
qed

lemma fl_restock_loop_no_error:
  "fl_restock_loop fl ssd rtd sv st items acc = Inr recs \<Longrightarrow> item \<in> set items \<Longrightarrow>
   fl_restock_entry fl ssd rtd sv st item \<noteq> Inl e"
proof (induction items arbitrary: acc)
  case Nil
  then show ?case by simp
next
  case (Cons a items)
  then show ?case
    by (cases "fl_restock_entry fl ssd rtd sv st a") (auto split: option.splits)
qed

lemma fl_restock_entry_Some:
  assumes "fl_restock_entry fl ssd rtd sv st ((p, w), d) = Inr (Some r)"
  shows "product_id r = p" and "warehouse_id r = w"
    and "recommended_restock_quantity r =
           max 1 (py_int (fl (fl_target_stock fl ssd (fl_pair_velocity fl sv p w)
                               - fl (of_int (available_quantity d)))))"
  using assms by (auto simp: fl_restock_entry_def Let_def split: if_splits)

lemma fl_restock_entry_None:
  "fl_restock_entry fl ssd rtd sv st ((p, w), d) = Inr None \<longleftrightarrow>
   fl_reorder_point fl rtd (fl_pair_velocity fl sv p w) (pair_shipment_time st w)
     < of_int (available_quantity d)"
  by (auto simp: fl_restock_entry_def Let_def split: if_splits)

lemma fl_calculate_restock_recommendations_Inr:
  assumes "fl_calculate_restock_recommendations fl db now ssd rtd = Inr recs"
  obtains sv recs0 where "fl_calculate_sales_velocity fl db now 30 = Inr sv"
    and "fl_restock_loop fl ssd rtd sv (fl_get_average_shipment_time fl db)
           (get_current_inventory db) [] = Inr recs0"
    and "recs = sort_key (\<lambda>x. - urgency_score x) recs0"
  using assms
  by (auto simp: fl_calculate_restock_recommendations_def Let_def split: sum.splits)

text \<open>With no rounding at all, the floating-point engine is the engine over the reals.\<close>

lemma fl_restock_entry_exact:
  "fl_restock_entry (\<lambda>x. x) ssd rtd sv st item = restock_entry ssd rtd sv st item"
  by (simp add: fl_restock_entry_def restock_entry_def fl_pair_velocity_def pair_velocity_def
      fl_safety_stock_def pair_safety_stock_def fl_reorder_point_def pair_reorder_point_def
      fl_target_stock_def pair_target_stock_def Let_def split: prod.splits)

lemma fl_restock_loop_exact:
  "fl_restock_loop (\<lambda>x. x) ssd rtd sv st items acc = restock_loop ssd rtd sv st items acc"
  by (induction items arbitrary: acc)
    (simp_all add: fl_restock_entry_exact split: sum.splits option.splits)

lemma fl_calculate_restock_recommendations_exact:
  "fl_calculate_restock_recommendations (\<lambda>x. x) db now ssd rtd
     = calculate_restock_recommendations db now ssd rtd"
proof -
  have sv: "fl_calculate_sales_velocity (\<lambda>x. x) db now 30 = calculate_sales_velocity db now 30"
    by (simp add: fl_calculate_sales_velocity_def option.map_ident split: sum.splits)
  have st: "fl_get_average_shipment_time (\<lambda>x. x) db = get_average_shipment_time db"
    by (simp add: fl_get_average_shipment_time_def get_average_shipment_time_def case_prod_unfold)
  show ?thesis
    by (simp add: fl_calculate_restock_recommendations_def calculate_restock_recommendations_def
        sv st fl_restock_loop_exact Let_def split: sum.splits)
qed

text \<open>
  C1, as amended: for every pair of the inventory that triggers restocking (available
  quantity at most the reorder point the code computes), a successful run returns a record
  for the pair, and every record of the pair carries the quantity
  \<^verbatim>\<open>max(1, int(target_stock - available_quantity))\<close>, the computed difference truncated
  towards zero, where the target stock is the computed safety stock plus 30 days of velocity.
  This holds whatever the rounding of the floating-point operations is, so for the doubles.
\<close>

theorem recommended_quantity_truncates:
  assumes run: "fl_calculate_restock_recommendations fl db now ssd rtd = Inr recs"
    and sv: "fl_calculate_sales_velocity fl db now 30 = Inr sv"
    and item: "((p, w), d) \<in> set (get_current_inventory db)"
    and trig: "of_int (available_quantity d)
                 \<le> fl_reorder_point fl rtd (fl_pair_velocity fl sv p w)
                      (pair_shipment_time (fl_get_average_shipment_time fl db) w)"
  shows "(\<exists>r \<in> set recs. product_id r = p \<and> warehouse_id r = w) \<and>
         (\<forall>r \<in> set recs. product_id r = p \<and> warehouse_id r = w \<longrightarrow>
            recommended_restock_quantity r =
              max 1 (py_int (fl (fl_target_stock fl ssd (fl_pair_velocity fl sv p w)
                                  - fl (of_int (available_quantity d))))))"
proof -
  let ?st = "fl_get_average_shipment_time fl db"
  let ?inv = "get_current_inventory db"
  let ?q = "max 1 (py_int (fl (fl_target_stock fl ssd (fl_pair_velocity fl sv p w)
                                  - fl (of_int (available_quantity d)))))"
  from run obtain sv' recs0 where
    "fl_calculate_sales_velocity fl db now 30 = Inr sv'"
    and loop': "fl_restock_loop fl ssd rtd sv' ?st ?inv [] = Inr recs0"
    and recs: "recs = sort_key (\<lambda>x. - urgency_score x) recs0"
    by (rule fl_calculate_restock_recommendations_Inr)
  with sv have loop: "fl_restock_loop fl ssd rtd sv ?st ?inv [] = Inr recs0" by simp
  have set_recs:
    "set recs = {r. \<exists>item \<in> set ?inv. fl_restock_entry fl ssd rtd sv ?st item = Inr (Some r)}"
    using fl_restock_loop_set [OF loop] recs by simp
  have "\<forall>e. fl_restock_entry fl ssd rtd sv ?st ((p, w), d) \<noteq> Inl e"
    using fl_restock_loop_no_error [OF loop item] by simp
  moreover have "fl_restock_entry fl ssd rtd sv ?st ((p, w), d) \<noteq> Inr None"
    using trig by (simp add: fl_restock_entry_None)
  ultimately obtain r where r: "fl_restock_entry fl ssd rtd sv ?st ((p, w), d) = Inr (Some r)"
    by (cases "fl_restock_entry fl ssd rtd sv ?st ((p, w), d)") auto
  with item set_recs have "r \<in> set recs" by auto
  with fl_restock_entry_Some(1,2) [OF r]
  have ex: "\<exists>r \<in> set recs. product_id r = p \<and> warehouse_id r = w" by blast
  have all: "\<forall>r \<in> set recs. product_id r = p \<and> warehouse_id r = w \<longrightarrow>
               recommended_restock_quantity r = ?q"
  proof (intro ballI impI)
    fix r'
    assume mem: "r' \<in> set recs" and key: "product_id r' = p \<and> warehouse_id r' = w"
    from mem set_recs obtain item' where
      item': "item' \<in> set ?inv" and e: "fl_restock_entry fl ssd rtd sv ?st item' = Inr (Some r')"
      by auto
    obtain p' w' d' where split: "item' = ((p', w'), d')" by (cases item') auto
    from e split key have "p' = p" "w' = w"
      by (auto dest: fl_restock_entry_Some(1) fl_restock_entry_Some(2))
    with item' split have "((p, w), d') \<in> set ?inv" by simp
    with item get_current_inventory_distinct [of db] have "d' = d"
      by (meson eq_key_imp_eq_value)
    with e split \<open>p' = p\<close> \<open>w' = w\<close>
    have "fl_restock_entry fl ssd rtd sv ?st ((p, w), d) = Inr (Some r')" by simp
    then show "recommended_restock_quantity r' = ?q" by (rule fl_restock_entry_Some(3))
  qed
  from ex all show ?thesis by simp
qed

lemmas fl_restock_defs = fl_calculate_restock_recommendations_def fl_calculate_sales_velocity_def
  fl_get_average_shipment_time_def fl_restock_entry_def fl_pair_velocity_def
  fl_safety_stock_def fl_reorder_point_def fl_target_stock_def

lemma db_many_run:
  "\<exists>r. fl_calculate_restock_recommendations double_round db_many 60 30 7 = Inr [r]
     \<and> product_id r = ''P1'' \<and> warehouse_id r = ''W1'' \<and> recommended_restock_quantity r = 245"
  by (simp add: fl_restock_defs restock_defs double_defs db_many_def)

lemma db_many_velocity:
  "fl_calculate_sales_velocity double_round db_many 60 30
     = Inr [(''P1'', ''W1'') \<mapsto> 2308094809027379 / 562949953421312]"
  by (simp add: fl_restock_defs restock_defs double_defs db_many_def fun_eq_iff)

text \<open>
  On \<open>db_many\<close> with 30 safety-stock days, in doubles: the velocity is the double nearest to
  4.1, the pair triggers, the computed difference is just below 246 and the record carries
  245. Over the reals the difference is 246.
\<close>

theorem recommended_quantity_truncates_witness:
  "map_sum (\<lambda>e. e) (map recommended_restock_quantity)
      (fl_calculate_restock_recommendations double_round db_many 60 30 7) = Inr [245]
   \<and> max 1 (py_int (double_round
        (fl_target_stock double_round 30 (2308094809027379 / 562949953421312)
           - double_round (of_int 0)))) = 245
   \<and> max 1 (py_int (pair_target_stock 30 (123 / 30) - of_int 0)) = 246"
proof -
  let ?d = "\<lparr>stock_quantity = 0, reserved_quantity = 0, available_quantity = 0\<rparr>"
  let ?sv = "[(''P1'', ''W1'') \<mapsto> 2308094809027379 / 562949953421312 :: real]"
  from db_many_run obtain r where
    run: "fl_calculate_restock_recommendations double_round db_many 60 30 7 = Inr [r]"
    and key: "product_id r = ''P1'' \<and> warehouse_id r = ''W1''"
    and q: "recommended_restock_quantity r = 245"
    by blast
  have item: "((''P1'', ''W1''), ?d) \<in> set (get_current_inventory db_many)"
    by (simp add: restock_defs db_many_def)
  have st: "fl_get_average_shipment_time double_round db_many = Map.empty"
    by (simp add: fl_restock_defs restock_defs db_many_def)
  have trig: "of_int (available_quantity ?d)
                 \<le> fl_reorder_point double_round 7 (fl_pair_velocity double_round ?sv ''P1'' ''W1'')
                      (pair_shipment_time (fl_get_average_shipment_time double_round db_many) ''W1'')"
    by (simp add: st fl_pair_velocity_def fl_reorder_point_def pair_shipment_time_def
        double_defs round_half_even_def Let_def)
  have mem: "r \<in> set [r]" by simp
  from recommended_quantity_truncates [OF run db_many_velocity item trig] mem key
  have "recommended_restock_quantity r =
          max 1 (py_int (double_round
            (fl_target_stock double_round 30 (fl_pair_velocity double_round ?sv ''P1'' ''W1'')
               - double_round (of_int (available_quantity ?d)))))"
    by blast
  with q have "max 1 (py_int (double_round
        (fl_target_stock double_round 30 (2308094809027379 / 562949953421312)
           - double_round (of_int 0)))) = 245"
    by (simp add: fl_pair_velocity_def)
  moreover have "max 1 (py_int (pair_target_stock 30 (123 / 30) - of_int 0)) = 246"
    by (simp add: pair_target_stock_def pair_safety_stock_def py_int_def)
  ultimately show ?thesis using run q by simp
qed

text \<open>
  C1 as stated fails: on \<open>db_two\<close>, in doubles, the pair (P1, W1) triggers with a computed
  target stock of about 2.93 and no stock, which rounds to 3, and the record carries 2.
\<close>

theorem recommended_quantity_rounds_counterexample:
  "map_sum (\<lambda>e. e) (map product_id)
      (fl_calculate_restock_recommendations double_round db_two 60 14 7) = Inr [''P1'', ''P2'']
   \<and> map_sum (\<lambda>e. e) (map recommended_restock_quantity)
      (fl_calculate_restock_recommendations double_round db_two 60 14 7) = Inr [2, 3]
   \<and> fl_calculate_sales_velocity double_round db_two 60 30
       = Inr [(''P1'', ''W1'') \<mapsto> double_round (2 / 30)]
   \<and> of_int 0 \<le> fl_reorder_point double_round 7 (double_round (2 / 30)) 5
   \<and> spec_recommended_quantity (fl_target_stock double_round 14 (double_round (2 / 30))) 0 = 3"
  by (simp add: fl_restock_defs restock_defs double_defs db_two_def
      spec_recommended_quantity_def fun_eq_iff)

text \<open>
  Where the engine over the reals and the engine on doubles part: on \<open>db_boundary\<close> the
  reorder point is 4 over the reals and just below 4 in doubles, so with 4 units in stock
  the program returns nothing.
\<close>

lemma double_engine_boundary_example:
  "fl_calculate_restock_recommendations double_round db_boundary 60 14 7 = Inr []
   \<and> map_sum (\<lambda>e. e) (map recommended_restock_quantity)
        (calculate_restock_recommendations db_boundary 60 14 7) = Inr [9]"
  by (simp add: fl_restock_defs restock_defs double_defs db_boundary_def)

subsection \<open>The engine over the reals\<close>



text \<open>
  C5: the returned list is in non-increasing order of urgency score; each record's score
  is at least the score of the next one.
\<close>

theorem recommendations_sorted_by_urgency:
  assumes "calculate_restock_recommendations db now ssd rtd = Inr recs"
  shows "sorted_wrt (\<lambda>a b. urgency_score b \<le> urgency_score a) recs \<and>
         (\<forall>i. Suc i < length recs \<longrightarrow> urgency_score (recs ! Suc i) \<le> urgency_score (recs ! i))"
proof -
  from assms obtain recs0 where recs: "recs = sort_key (\<lambda>x. - urgency_score x) recs0"
    by (rule calculate_restock_recommendations_Inr)
  have "sorted (map (\<lambda>x. - urgency_score x) recs)"
    unfolding recs by (rule sorted_sort_key)
  then have s: "sorted_wrt (\<lambda>a b. urgency_score b \<le> urgency_score a) recs"
    by (simp add: sorted_map)
  moreover have "\<forall>i. Suc i < length recs \<longrightarrow> urgency_score (recs ! Suc i) \<le> urgency_score (recs ! i)"
    using sorted_wrt_nth_less [OF s] by simp
  ultimately show ?thesis by simp
qed

text \<open>
  On \<open>db_two\<close> the inventory lists P2 before P1, and the output lists P1 (score 100)
  before P2 (score 16.7).
\<close>

theorem recommendations_sorted_by_urgency_witness:
  "calculate_restock_recommendations db_two 60 14 7 = Inr [p1_recommendation, p2_recommendation]
   \<and> map fst (get_current_inventory db_two) = [(''P2'', ''W1''), (''P1'', ''W1''), (''P3'', ''W1'')]
   \<and> urgency_score p1_recommendation = 100 \<and> urgency_score p2_recommendation = 167 / 10
   \<and> urgency_score ([p1_recommendation, p2_recommendation] ! Suc 0)
       \<le> urgency_score ([p1_recommendation, p2_recommendation] ! 0)"
proof -
  have "Suc 0 < length [p1_recommendation, p2_recommendation]" by simp
  with recommendations_sorted_by_urgency [OF db_two_run]
  have "urgency_score ([p1_recommendation, p2_recommendation] ! Suc 0)
       \<le> urgency_score ([p1_recommendation, p2_recommendation] ! 0)"
    by blast
  then show ?thesis
    using db_two_run by (simp add: db_two_inventory p1_recommendation_def p2_recommendation_def)
qed

text \<open>
  The division of the urgency score is not guarded: whenever a pair triggers with a reorder
  point of 0, the run ends in the \<^verbatim>\<open>ZeroDivisionError\<close>.
\<close>

lemma restock_raises_at_zero_reorder_point:
  assumes sv: "calculate_sales_velocity db now 30 = Inr sv"
    and item: "((p, w), d) \<in> set (get_current_inventory db)"
    and trig: "of_int (available_quantity d)
                 \<le> pair_reorder_point rtd (pair_velocity sv p w)
                      (pair_shipment_time (get_average_shipment_time db) w)"
    and zero: "pair_reorder_point rtd (pair_velocity sv p w)
                 (pair_shipment_time (get_average_shipment_time db) w) = 0"
  shows "calculate_restock_recommendations db now ssd rtd = Inl ZeroDivisionError"
proof -
  have "restock_entry ssd rtd sv (get_average_shipment_time db) ((p, w), d)
          = Inl ZeroDivisionError"
    using trig zero by (simp add: restock_entry_Inl)
  from restock_loop_error [OF item this]
  obtain e where "restock_loop ssd rtd sv (get_average_shipment_time db)
                    (get_current_inventory db) [] = Inl e"
    by blast
  with sv have "calculate_restock_recommendations db now ssd rtd = Inl e"
    by (simp add: calculate_restock_recommendations_def)
  then show ?thesis by (cases e) simp
qed

text \<open>
  C2 (the code does not guard the division): on \<open>db_zero\<close>, where the only sale of (P1, W1)
  has quantity 0 and the pair is out of stock, and on \<open>db_two\<close> with a threshold of -5 days
  against the default shipment time of 5, the run raises \<^verbatim>\<open>ZeroDivisionError\<close>.
\<close>

theorem zero_reorder_point_raises:
  "calculate_restock_recommendations db_zero 60 14 7 = Inl ZeroDivisionError
   \<and> calculate_restock_recommendations db_two 60 14 (- 5) = Inl ZeroDivisionError"
  by (simp add: restock_defs db_zero_def db_two_def)

section \<open>Properties of the metric extractors\<close>

lemma set_group_keys: "set (group_keys key rows) = key ` set rows"
  by (simp add: group_keys_def)

lemma distinct_group_keys: "distinct (group_keys key rows)"
  by (simp add: group_keys_def)

lemma group_rows_empty_iff: "group_rows key rows k = [] \<longleftrightarrow> k \<notin> key ` set rows"
  by (auto simp: group_rows_def filter_empty_conv)

lemma sum_list_pos_int:
  fixes xs :: "int list"
  shows "xs \<noteq> [] \<Longrightarrow> \<forall>x \<in> set xs. 0 < x \<Longrightarrow> 0 < sum_list xs"
proof (induction xs)
  case Nil
  then show ?case by simp
next
  case (Cons x xs)
  then show ?case by (cases xs) (auto intro: add_pos_pos)
qed

lemma sales_velocity_query_pos:
  assumes "\<forall>ord \<in> set (orders db). 0 < o_quantity ord"
    and "(k, total_sold) \<in> set (sales_velocity_query db cutoff_date)"
  shows "0 < total_sold"
proof -
  define joined where "joined = [(ord, s). ord \<leftarrow> orders db, s \<leftarrow> shipment db,
                      o_order_id ord = s_order_id s,
                      cutoff_date \<le> o_order_date ord,
                      o_order_status ord = ''Shipped'' \<or> o_order_status ord = ''Delivered'']"
  define key where "key = (\<lambda>(ord :: orders_row, s :: shipment_row). (o_product_id ord, s_warehouse_id s))"
  from assms(2) have k: "k \<in> set (group_keys key joined)"
    and t: "total_sold = sum_list (map (\<lambda>(ord, s). o_quantity ord) (group_rows key joined k))"
    by (auto simp: sales_velocity_query_def Let_def joined_def key_def)
  from k have "group_rows key joined k \<noteq> []"
    by (simp add: group_rows_empty_iff set_group_keys)
  moreover have "\<forall>x \<in> set (map (\<lambda>(ord, s). o_quantity ord) (group_rows key joined k)). 0 < x"
    using assms(1) by (auto simp: group_rows_def joined_def)
  ultimately show ?thesis unfolding t by (intro sum_list_pos_int) simp_all
qed

lemma velocity_loop_pos:
  "velocity_loop days results m = Inr sv \<Longrightarrow> 0 < days \<Longrightarrow>
   \<forall>x \<in> set results. 0 < snd x \<Longrightarrow> \<forall>v \<in> ran m. 0 < v \<Longrightarrow> \<forall>v \<in> ran sv. 0 < v"
proof (induction days results m rule: velocity_loop.induct)
  case (1 days velocity)
  then show ?case by simp
next
  case (2 days k' total_sold results velocity)
  from "2.prems" have run:
    "velocity_loop days results (velocity(k' \<mapsto> of_int total_sold / of_int days)) = Inr sv"
    and d: "days \<noteq> 0" by (auto split: if_splits)
  from "2.prems" have "0 < real_of_int total_sold / real_of_int days" by simp
  with "2.prems"(4)
  have m': "\<forall>v \<in> ran (velocity(k' \<mapsto> real_of_int total_sold / real_of_int days)). 0 < v"
    by (auto simp: ran_def)
  from "2.prems"(3) have r: "\<forall>x \<in> set results. 0 < snd x" by simp
  show ?case by (rule "2.IH" [OF d run "2.prems"(2) r m'])
qed

lemma velocity_loop_total:
  "days \<noteq> 0 \<Longrightarrow> \<exists>sv. velocity_loop days results m = Inr sv"
  by (induction days results m rule: velocity_loop.induct) auto

text \<open>
  C10: when every order quantity is positive and the window is positive, every value of the
  mapping that \<^verbatim>\<open>calculate_sales_velocity\<close> returns is strictly positive; so the velocity
  the engine uses for a pair (a mapping value or the default 0.1) is strictly positive, and
  the reorder point is strictly positive whenever the average shipment time plus the
  threshold days is.
\<close>

theorem sales_velocity_positive:
  assumes qty: "\<forall>ord \<in> set (orders db). 0 < o_quantity ord"
    and days: "0 < days"
    and sv: "calculate_sales_velocity db now days = Inr sv"
  shows "(\<forall>k v. sv k = Some v \<longrightarrow> 0 < v) \<and>
         0 < pair_velocity sv p w \<and>
         (0 < avg_shipment_time + of_int rtd \<longrightarrow>
            0 < pair_reorder_point rtd (pair_velocity sv p w) avg_shipment_time)"
proof -
  have "\<forall>x \<in> set (sales_velocity_query db (now - days)). 0 < snd x"
    using sales_velocity_query_pos [OF qty] by auto
  with sv days have "\<forall>v \<in> ran sv. 0 < v"
    unfolding calculate_sales_velocity_def
    by (auto dest: velocity_loop_pos)
  then have vals: "\<forall>k v. sv k = Some v \<longrightarrow> 0 < v"
    by (auto simp: ran_def)
  from vals have v: "0 < pair_velocity sv p w"
    by (auto simp: pair_velocity_def split: option.splits)
  then have "0 < avg_shipment_time + of_int rtd \<longrightarrow>
            0 < pair_reorder_point rtd (pair_velocity sv p w) avg_shipment_time"
    by (simp add: pair_reorder_point_def)
  with vals v show ?thesis by simp
qed

text \<open>On \<open>db_two\<close>: the velocity 1/15 of (P1, W1), the default of (P2, W1).\<close>

theorem sales_velocity_positive_witness:
  "calculate_sales_velocity db_two 60 30 = Inr two_velocity
   \<and> two_velocity (''P1'', ''W1'') = Some (1 / 15)
   \<and> 0 < pair_velocity two_velocity ''P1'' ''W1''
   \<and> 0 < pair_velocity two_velocity ''P2'' ''W1''
   \<and> 0 < pair_reorder_point 7 (pair_velocity two_velocity ''P1'' ''W1'') 5"
proof -
  have qty: "\<forall>ord \<in> set (orders db_two). 0 < o_quantity ord"
    by (simp add: db_two_def)
  have days: "(0::int) < 30" by simp
  have "(0::real) < 5 + of_int 7" by simp
  with sales_velocity_positive [OF qty days db_two_velocity, of "''P1''" "''W1''" 5 7]
    sales_velocity_positive [OF qty days db_two_velocity, of "''P2''" "''W1''" 5 7]
  show ?thesis using db_two_velocity by (simp add: two_velocity_def)
qed

text \<open>
  What \<^verbatim>\<open>get_average_shipment_time\<close> stores: nothing for a warehouse without a delivered
  shipment, the average for a warehouse whose average is not 0, and 5 where it is 0.
\<close>

lemma shipment_time_loop_lookup:
  "distinct (map fst results) \<Longrightarrow>
   shipment_time_loop results m w =
     (case map_of results w of None \<Rightarrow> m w | Some a \<Rightarrow> Some (if a \<noteq> 0 then a else 5))"
proof (induction results m rule: shipment_time_loop.induct)
  case (1 shipment_times)
  then show ?case by simp
next
  case (2 w' a' results m)
  let ?m = "m(w' \<mapsto> (if a' \<noteq> 0 then a' else 5))"
  from "2.prems" have d: "distinct (map fst results)" and nin: "map_of results w' = None"
    by (simp_all add: map_of_eq_None_iff)
  have "shipment_time_loop ((w', a') # results) m w = shipment_time_loop results ?m w"
    by simp
  also have "\<dots> = (case map_of results w of None \<Rightarrow> ?m w
                     | Some a \<Rightarrow> Some (if a \<noteq> 0 then a else 5))"
    by (rule "2.IH" [OF d])
  also have "\<dots> = (case map_of ((w', a') # results) w of None \<Rightarrow> m w
                     | Some a \<Rightarrow> Some (if a \<noteq> 0 then a else 5))"
    using nin by (cases "w = w'") (simp_all split: option.splits)
  finally show ?case .
qed

lemma get_average_shipment_time_lookup:
  "get_average_shipment_time db w =
     (let rows = filter (\<lambda>(s, a). s_warehouse_id s = w) (delivered_shipments db)
      in if rows = [] then None
         else let avg_days = sql_avg (map (\<lambda>(s, a). of_int (a - s_ship_date s)) rows)
              in Some (if avg_days \<noteq> 0 then avg_days else 5))"
proof -
  define key where "key = (\<lambda>(s :: shipment_row, a :: date). s_warehouse_id s)"
  define rows where "rows = delivered_shipments db"
  define g where "g = (\<lambda>w. sql_avg (map (\<lambda>(s, a). of_int (a - s_ship_date s)) (group_rows key rows w)))"
  have q: "shipment_time_query db = map (\<lambda>w. (w, g w)) (group_keys key rows)"
    by (simp add: shipment_time_query_def Let_def g_def key_def rows_def)
  have d: "distinct (map fst (shipment_time_query db))"
    by (simp add: q comp_def distinct_group_keys)
  have m: "map_of (shipment_time_query db) w = (if w \<in> key ` set rows then Some (g w) else None)"
    by (simp add: q map_of_map_restrict set_group_keys restrict_map_def)
  have f: "filter (\<lambda>(s, a). s_warehouse_id s = w) rows = group_rows key rows w"
    by (simp add: group_rows_def key_def case_prod_unfold)
  show ?thesis
    unfolding get_average_shipment_time_def shipment_time_loop_lookup [OF d] m
    using group_rows_empty_iff [of key rows w]
    by (simp add: Let_def f g_def flip: rows_def)
qed

text \<open>
  C3 (the code departs from it at an average of 0): on \<open>db_same_day\<close> the query returns the
  average 0 for W1, and the mapping holds 5.
\<close>

theorem zero_average_shipment_time_replaced:
  "shipment_time_query db_same_day = [(''W1'', 0)]
   \<and> get_average_shipment_time db_same_day ''W1'' = Some 5"
  by (simp add: restock_defs db_same_day_def)

section \<open>Properties of the analytics aggregators\<close>

lemmas analytics_defs = calculate_carrier_delivery_performance_def carrier_performance_query_def
  carrier_round_def identify_top_selling_products_def top_selling_query_def top_product_round_def
  analyze_inventory_shortages_def shortage_query_def shortage_select_def shortage_order_key_def shortage_round_def demand_analysis_def
  left_join_def sql_min_def sql_max_def sql_avg_def sql_div_def sql_when_less_def
  coalesce_rate_def days_of_stock_case_def stock_status_case_def status_rank_def
  rate_desc_key_def delivered_shipments_def group_keys_def group_rows_def
  py_round_def round_half_even_def Let_def

lemma top_product_round_units [simp]:
  "total_units_sold (top_product_round r) = total_units_sold r"
  by (simp add: top_product_round_def)

text \<open>
  C9: for every database, \<^verbatim>\<open>identify_top_selling_products\<close> returns at most 5 records, in
  non-increasing order of the total units sold.
\<close>

theorem top_selling_at_most_five_sorted:
  "length (identify_top_selling_products db now days) \<le> 5 \<and>
   sorted_wrt (\<lambda>a b. total_units_sold b \<le> total_units_sold a)
     (identify_top_selling_products db now days)"
proof -
  have "sorted (map (\<lambda>r. - total_units_sold r) (sort_key (\<lambda>r. - total_units_sold r) gs))"
    for gs :: "top_product list"
    by (rule sorted_sort_key)
  then have "sorted_wrt (\<lambda>a b. total_units_sold b \<le> total_units_sold a)
               (take 5 (sort_key (\<lambda>r. - total_units_sold r) gs))"
    for gs :: "top_product list"
    by (simp add: sorted_map)
  then show ?thesis
    by (simp add: identify_top_selling_products_def top_selling_query_def Let_def
        sorted_wrt_map)
qed

text \<open>On \<open>db_six\<close>, six products have sales; the five best are returned, P3 is left out.\<close>

theorem top_selling_at_most_five_sorted_witness:
  "map total_units_sold (identify_top_selling_products db_six 60 90) = [9, 8, 7, 5, 2]
   \<and> map tp_product_id (identify_top_selling_products db_six 60 90)
       = [''P2'', ''P1'', ''P4'', ''P6'', ''P5'']
   \<and> length (identify_top_selling_products db_six 60 90) \<le> 5
   \<and> sorted_wrt (\<lambda>a b. total_units_sold b \<le> total_units_sold a)
        (identify_top_selling_products db_six 60 90)"
proof -
  have "map total_units_sold (identify_top_selling_products db_six 60 90) = [9, 8, 7, 5, 2]"
    by (simp add: analytics_defs db_six_def)
  moreover have "map tp_product_id (identify_top_selling_products db_six 60 90)
       = [''P2'', ''P1'', ''P4'', ''P6'', ''P5'']"
    by (simp add: analytics_defs db_six_def)
  ultimately show ?thesis
    using top_selling_at_most_five_sorted [of db_six 60 90] by simp
qed

lemma round_half_even_of_int [simp]: "round_half_even (of_int n) = n"
  by (simp add: round_half_even_def)

lemma round_half_even_ge: "of_int n \<le> x \<Longrightarrow> n \<le> round_half_even x"
proof -
  assume "of_int n \<le> x"
  then have "n \<le> \<lfloor>x\<rfloor>" by (simp add: le_floor_iff)
  then show ?thesis by (simp add: round_half_even_def Let_def)
qed

lemma round_half_even_le: "x \<le> of_int n \<Longrightarrow> round_half_even x \<le> n"
proof (cases "x = of_int n")
  case True
  then show ?thesis by simp
next
  case False
  assume "x \<le> of_int n"
  with False have "x < of_int n" by simp
  then have "\<lfloor>x\<rfloor> < n" by (simp add: floor_less_iff)
  then show ?thesis by (simp add: round_half_even_def Let_def)
qed

lemma py_round_percentage:
  assumes "0 \<le> x" and "x \<le> 100"
  shows "0 \<le> py_round x 2" and "py_round x 2 \<le> 100"
proof -
  from assms have "of_int 0 \<le> x * 10 ^ 2" and "x * 10 ^ 2 \<le> of_int 10000" by simp_all
  then have "0 \<le> round_half_even (x * 10 ^ 2)" and "round_half_even (x * 10 ^ 2) \<le> 10000"
    by (simp_all only: round_half_even_ge round_half_even_le)
  then show "0 \<le> py_round x 2" and "py_round x 2 \<le> 100"
    by (simp_all add: py_round_def)
qed

lemma py_round_hundred: "py_round 100 2 = 100"
  by (simp add: py_round_def round_half_even_def)

lemma length_filter_eq_iff: "length (filter P xs) = length xs \<longleftrightarrow> (\<forall>x \<in> set xs. P x)"
proof
  assume len: "length (filter P xs) = length xs"
  show "\<forall>x \<in> set xs. P x"
  proof
    fix x assume "x \<in> set xs"
    with len length_filter_less [of x xs P] show "P x" by auto
  qed
next
  assume "\<forall>x \<in> set xs. P x"
  then show "length (filter P xs) = length xs" by simp
qed

lemma percentage_bounds:
  fixes g :: "'a list" and P :: "'a \<Rightarrow> bool"
  assumes "g \<noteq> []"
  defines "pct \<equiv> real (length (filter P g)) * 100 / real (length g)"
  shows "0 \<le> pct" and "pct \<le> 100" and "pct = 100 \<longleftrightarrow> (\<forall>x \<in> set g. P x)"
proof -
  from assms(1) have pos: "0 < real (length g)" by simp
  show "0 \<le> pct" unfolding pct_def by simp
  have le: "real (length (filter P g)) \<le> real (length g)" by simp
  from pos le show "pct \<le> 100" unfolding pct_def by (simp add: divide_le_eq)
  have "pct = 100 \<longleftrightarrow> real (length (filter P g)) = real (length g)"
    unfolding pct_def using pos by (simp add: divide_eq_eq)
  also have "\<dots> \<longleftrightarrow> (\<forall>x \<in> set g. P x)"
    by (simp add: length_filter_eq_iff)
  finally show "pct = 100 \<longleftrightarrow> (\<forall>x \<in> set g. P x)" .
qed

lemma carrier_performance_query_row:
  assumes "r \<in> set (carrier_performance_query db)"
  defines "g \<equiv> filter (\<lambda>(s, a). s_carrier_id s = cp_carrier_id r \<and> s_service_level s = cp_service_level r)
                  (delivered_shipments db)"
  shows "g \<noteq> []"
    and "on_time_percentage r
           = real (length (filter (\<lambda>(s, a). a \<le> s_estimated_delivery s) g)) * 100 / real (length g)"
proof -
  define key where "key = (\<lambda>(s :: shipment_row, a :: date). (s_carrier_id s, s_service_level s))"
  define rows where "rows = delivered_shipments db"
  define mk where "mk = (\<lambda>k.
              let g = group_rows key rows k;
                  delivery_days = map (\<lambda>(s, a). of_int (a - s_ship_date s)) g
              in \<lparr>cp_carrier_id = fst k,
                  cp_service_level = snd k,
                  total_shipments = length g,
                  avg_delivery_days = sql_avg delivery_days,
                  min_delivery_days = sql_min delivery_days,
                  max_delivery_days = sql_max delivery_days,
                  avg_delay_days = sql_avg (map (\<lambda>(s, a). of_int (a - s_estimated_delivery s)) g),
                  on_time_percentage =
                    of_nat (length (filter (\<lambda>(s, a). a \<le> s_estimated_delivery s) g)) * 100
                      / of_nat (length g)\<rparr>)"
  have "set (carrier_performance_query db) = mk ` set (group_keys key rows)"
    unfolding carrier_performance_query_def mk_def key_def rows_def by (simp add: Let_def)
  with assms(1) obtain k where k: "k \<in> key ` set rows" and rk: "r = mk k"
    unfolding set_group_keys by blast
  have r: "cp_carrier_id r = fst k" "cp_service_level r = snd k"
      "on_time_percentage r =
         real (length (filter (\<lambda>(s, a). a \<le> s_estimated_delivery s) (group_rows key rows k))) * 100
           / real (length (group_rows key rows k))"
    unfolding rk mk_def by (simp_all add: Let_def)
  have g: "g = group_rows key rows k"
    unfolding g_def group_rows_def key_def rows_def r
    by (rule filter_cong) (auto simp: prod_eq_iff)
  from k show "g \<noteq> []" by (simp add: g group_rows_empty_iff)
  from r(3) show "on_time_percentage r
           = real (length (filter (\<lambda>(s, a). a \<le> s_estimated_delivery s) g)) * 100 / real (length g)"
    by (simp add: g)
qed

text \<open>
  C8, as amended: for every row of the query (a carrier and service level among the
  delivered shipments), the on-time percentage the query computes lies between 0 and 100 and
  is 100 exactly when every delivered shipment of the group arrived by its estimated date;
  the figure the function returns, rounded to 2 decimals, lies between 0 and 100 and is 100
  when every shipment of the group was on time.
\<close>

theorem on_time_percentage_bounds:
  assumes "r \<in> set (carrier_performance_query db)"
  shows "0 \<le> on_time_percentage r \<and> on_time_percentage r \<le> 100 \<and>
         (on_time_percentage r = 100 \<longleftrightarrow>
            (\<forall>(s, a) \<in> set (delivered_shipments db).
               s_carrier_id s = cp_carrier_id r \<and> s_service_level s = cp_service_level r
                 \<longrightarrow> a \<le> s_estimated_delivery s)) \<and>
         0 \<le> on_time_percentage (carrier_round r) \<and> on_time_percentage (carrier_round r) \<le> 100 \<and>
         ((\<forall>(s, a) \<in> set (delivered_shipments db).
               s_carrier_id s = cp_carrier_id r \<and> s_service_level s = cp_service_level r
                 \<longrightarrow> a \<le> s_estimated_delivery s)
            \<longrightarrow> on_time_percentage (carrier_round r) = 100)"
proof -
  define g where "g = filter (\<lambda>(s, a). s_carrier_id s = cp_carrier_id r \<and> s_service_level s = cp_service_level r)
                  (delivered_shipments db)"
  let ?P = "\<lambda>(s :: shipment_row, a :: date). a \<le> s_estimated_delivery s"
  from carrier_performance_query_row [OF assms]
  have ne: "g \<noteq> []"
    and pct: "on_time_percentage r = real (length (filter ?P g)) * 100 / real (length g)"
    by (simp_all add: g_def)
  have all: "(\<forall>x \<in> set g. ?P x) \<longleftrightarrow>
             (\<forall>(s, a) \<in> set (delivered_shipments db).
               s_carrier_id s = cp_carrier_id r \<and> s_service_level s = cp_service_level r
                 \<longrightarrow> a \<le> s_estimated_delivery s)"
    by (auto simp: g_def)
  note b = percentage_bounds [OF ne, of ?P, folded pct]
  have rounded: "on_time_percentage (carrier_round r) = py_round (on_time_percentage r) 2"
    by (simp add: carrier_round_def)
  from b(1) b(2) have "0 \<le> on_time_percentage (carrier_round r)"
    and "on_time_percentage (carrier_round r) \<le> 100"
    unfolding rounded by (rule py_round_percentage)+
  moreover have "(\<forall>x \<in> set g. ?P x) \<longrightarrow> on_time_percentage (carrier_round r) = 100"
  proof
    assume "\<forall>x \<in> set g. ?P x"
    with b(3) have "on_time_percentage r = 100" by blast
    then show "on_time_percentage (carrier_round r) = 100"
      by (simp add: rounded py_round_hundred)
  qed
  ultimately show ?thesis using b all by simp
qed

text \<open>
  On \<open>db_same_day\<close> the only delivery is on time and both figures are 100; on \<open>db_shop\<close>
  one of two deliveries is late and the figure is 50.
\<close>

theorem on_time_percentage_bounds_witness:
  "carrier_performance_query db_same_day = [same_day_performance]
   \<and> on_time_percentage same_day_performance = 100
   \<and> on_time_percentage (carrier_round same_day_performance) = 100
   \<and> carrier_performance_query db_shop = [shop_performance]
   \<and> 0 \<le> on_time_percentage (carrier_round shop_performance)
   \<and> on_time_percentage (carrier_round shop_performance) \<le> 100
   \<and> on_time_percentage shop_performance \<noteq> 100
   \<and> (\<exists>(s, a) \<in> set (delivered_shipments db_shop).
         s_carrier_id s = cp_carrier_id shop_performance
         \<and> s_service_level s = cp_service_level shop_performance
         \<and> \<not> a \<le> s_estimated_delivery s)"
proof -
  have q1: "carrier_performance_query db_same_day = [same_day_performance]"
    by (simp add: analytics_defs db_same_day_def same_day_performance_def)
  have q2: "carrier_performance_query db_shop = [shop_performance]"
    by (simp add: analytics_defs db_shop_def shop_performance_def)
  have m1: "same_day_performance \<in> set (carrier_performance_query db_same_day)"
    and m2: "shop_performance \<in> set (carrier_performance_query db_shop)"
    by (simp_all add: q1 q2)
  have all: "\<forall>(s, a) \<in> set (delivered_shipments db_same_day).
               s_carrier_id s = cp_carrier_id same_day_performance
               \<and> s_service_level s = cp_service_level same_day_performance
                 \<longrightarrow> a \<le> s_estimated_delivery s"
    by (simp add: delivered_shipments_def db_same_day_def)
  from on_time_percentage_bounds [OF m1] all
  have "on_time_percentage same_day_performance = 100
        \<and> on_time_percentage (carrier_round same_day_performance) = 100"
    by blast
  moreover from on_time_percentage_bounds [OF m2]
  have "0 \<le> on_time_percentage (carrier_round shop_performance)
        \<and> on_time_percentage (carrier_round shop_performance) \<le> 100"
    by blast
  moreover have "on_time_percentage shop_performance \<noteq> 100"
    by (simp add: shop_performance_def)
  moreover have "\<exists>(s, a) \<in> set (delivered_shipments db_shop).
         s_carrier_id s = cp_carrier_id shop_performance
         \<and> s_service_level s = cp_service_level shop_performance
         \<and> \<not> a \<le> s_estimated_delivery s"
    by (simp add: delivered_shipments_def db_shop_def shop_performance_def)
  ultimately show ?thesis using q1 q2 by simp
qed

lemma concat_replicate_single: "concat (replicate n [x]) = replicate n x"
  by (induction n) simp_all

lemma remdups_replicate_snoc: "remdups (replicate n k @ [k]) = [k]"
  by (induction n) simp_all

lemma db_late_delivered:
  "delivered_shipments db_late = replicate 20000 (on_time_shipment, 12) @ [(late_shipment, 14)]"
  by (simp add: delivered_shipments_def db_late_def on_time_shipment_def late_shipment_def
      concat_replicate_single)

lemma db_late_keys:
  "group_keys (\<lambda>(s, a). (s_carrier_id s, s_service_level s)) (delivered_shipments db_late)
     = [(''A'', ''Standard'')]"
  by (simp add: db_late_delivered group_keys_def on_time_shipment_def late_shipment_def
      remdups_replicate_snoc)

lemma db_late_group:
  "group_rows (\<lambda>(s, a). (s_carrier_id s, s_service_level s)) (delivered_shipments db_late)
     (''A'', ''Standard'')
     = replicate 20000 (on_time_shipment, 12) @ [(late_shipment, 14)]"
  by (simp add: db_late_delivered group_rows_def on_time_shipment_def late_shipment_def
      filter_replicate)

text \<open>
  C8 as stated fails for the returned figure: on \<open>db_late\<close>, 20000 of 20001 deliveries are
  on time, the query computes 2000000/20001 = 99.995..., and the function returns 100 for
  a group with a late shipment.
\<close>

theorem on_time_percentage_rounding_counterexample:
  "map on_time_percentage (calculate_carrier_delivery_performance db_late) = [100]
   \<and> map cp_carrier_id (calculate_carrier_delivery_performance db_late) = [''A'']
   \<and> map cp_service_level (calculate_carrier_delivery_performance db_late) = [''Standard'']
   \<and> map total_shipments (calculate_carrier_delivery_performance db_late) = [20001]
   \<and> (late_shipment, 14) \<in> set (delivered_shipments db_late)
   \<and> s_carrier_id late_shipment = ''A'' \<and> s_service_level late_shipment = ''Standard''
   \<and> \<not> 14 \<le> s_estimated_delivery late_shipment"
  by (simp add: calculate_carrier_delivery_performance_def carrier_performance_query_def
      Let_def db_late_keys db_late_group carrier_round_def filter_replicate
      py_round_def round_half_even_def)
    (simp add: on_time_shipment_def late_shipment_def db_late_delivered)

subsection \<open>Inventory shortages\<close>

lemma stock_status_case_values:
  "stock_status_case available da \<in> {''OUT_OF_STOCK'', ''CRITICAL'', ''LOW'', ''ADEQUATE''}"
  by (simp add: stock_status_case_def)

lemma stock_status_case_zero: "stock_status_case 0 da = ''OUT_OF_STOCK''"
  by (simp add: stock_status_case_def)

lemma shortage_round_fields [simp]:
  "stock_status (shortage_round r) = stock_status r"
  "available_stock (shortage_round r) = available_stock r"
  "sh_product_id (shortage_round r) = sh_product_id r"
  "sh_warehouse_id (shortage_round r) = sh_warehouse_id r"
  by (simp_all add: shortage_round_def)

lemma shortage_select_fields [simp]:
  "stock_status (shortage_select w ci da p)
     = stock_status_case (i_stock_quantity ci - i_reserved_quantity ci) da"
  "available_stock (shortage_select w ci da p) = i_stock_quantity ci - i_reserved_quantity ci"
  "sh_product_id (shortage_select w ci da p) = i_product_id ci"
  "sh_warehouse_id (shortage_select w ci da p) = w_warehouse_id w"
  by (simp_all add: shortage_select_def Let_def)

lemma shortage_query_sound:
  assumes "r \<in> set (shortage_query db now)"
  obtains w ci da p where "w \<in> set (warehouse db)" and "ci \<in> set (inventory db)"
    and "da \<in> set (left_join (filter (\<lambda>d. i_product_id ci = da_product_id d
                                          \<and> i_warehouse_id ci = da_warehouse_id d)
                                  (demand_analysis db now)))"
    and "p \<in> set (left_join (filter (\<lambda>p. i_product_id ci = p_product_id p) (product db)))"
    and "i_warehouse_id ci = w_warehouse_id w"
    and "r = shortage_select w ci da p"
  using assms unfolding shortage_query_def
  by (auto split: if_splits)

lemma shortage_query_complete:
  assumes "w \<in> set (warehouse db)" and "ci \<in> set (inventory db)"
    and "da \<in> set (left_join (filter (\<lambda>d. i_product_id ci = da_product_id d
                                          \<and> i_warehouse_id ci = da_warehouse_id d)
                                  (demand_analysis db now)))"
    and "p \<in> set (left_join (filter (\<lambda>p. i_product_id ci = p_product_id p) (product db)))"
    and "i_warehouse_id ci = w_warehouse_id w"
  shows "shortage_select w ci da p \<in> set (shortage_query db now)"
proof -
  let ?rows = "[(shortage_select w ci da p, da).
          w \<leftarrow> warehouse db,
          ci \<leftarrow> inventory db,
          da \<leftarrow> left_join (filter (\<lambda>d. i_product_id ci = da_product_id d
                                        \<and> i_warehouse_id ci = da_warehouse_id d)
                                (demand_analysis db now)),
          p \<leftarrow> left_join (filter (\<lambda>p. i_product_id ci = p_product_id p) (product db)),
          i_warehouse_id ci = w_warehouse_id w]"
  from assms have "(shortage_select w ci da p, da) \<in> set ?rows"
    by auto
  then have "fst (shortage_select w ci da p, da) \<in> fst ` set ?rows"
    by (rule imageI)
  then show ?thesis unfolding shortage_query_def by simp
qed

lemma left_join_nonempty: "\<exists>x. x \<in> set (left_join matches)"
  by (cases matches) (auto simp: left_join_def)

lemma demand_analysis_distinct:
  "distinct (map (\<lambda>d. (da_product_id d, da_warehouse_id d)) (demand_analysis db now))"
  by (simp add: demand_analysis_def Let_def comp_def distinct_group_keys)

lemma left_join_filter_unique:
  assumes inj: "inj_on key (set xs)"
    and a: "a \<in> set (left_join (filter (\<lambda>d. key d = k) xs))"
    and b: "b \<in> set (left_join (filter (\<lambda>d. key d = k) xs))"
  shows "a = b"
proof (cases "filter (\<lambda>d. key d = k) xs = []")
  case True
  with a b show ?thesis by (simp add: left_join_def)
next
  case False
  with a obtain d1 where d1: "a = Some d1" "d1 \<in> set xs" "key d1 = k"
    by (auto simp: left_join_def)
  from False b obtain d2 where d2: "b = Some d2" "d2 \<in> set xs" "key d2 = k"
    by (auto simp: left_join_def)
  from inj d1(2) d2(2) d1(3) d2(3) have "d1 = d2" by (simp add: inj_on_def)
  with d1(1) d2(1) show ?thesis by simp
qed

lemma left_join_demand_unique:
  assumes "da1 \<in> set (left_join (filter (\<lambda>d. pid = da_product_id d \<and> wid = da_warehouse_id d)
                                   (demand_analysis db now)))"
    and "da2 \<in> set (left_join (filter (\<lambda>d. pid = da_product_id d \<and> wid = da_warehouse_id d)
                                   (demand_analysis db now)))"
  shows "da1 = da2"
proof -
  let ?key = "\<lambda>d. (da_product_id d, da_warehouse_id d)"
  have inj: "inj_on ?key (set (demand_analysis db now))"
    using demand_analysis_distinct [of db now] by (simp add: distinct_map)
  have eq: "(\<lambda>d. pid = da_product_id d \<and> wid = da_warehouse_id d) = (\<lambda>d. ?key d = (pid, wid))"
    by (rule ext) auto
  from assms show ?thesis unfolding eq by (rule left_join_filter_unique [OF inj])
qed


lemma analyze_inventory_shortages_status:
  assumes "r \<in> set (analyze_inventory_shortages db now)"
  shows "stock_status r \<in> {''OUT_OF_STOCK'', ''CRITICAL'', ''LOW'', ''ADEQUATE''}"
    and "available_stock r = 0 \<Longrightarrow> stock_status r = ''OUT_OF_STOCK''"
proof -
  from assms obtain r0 where r0: "r0 \<in> set (shortage_query db now)" and r: "r = shortage_round r0"
    by (auto simp: analyze_inventory_shortages_def)
  from r0 obtain w ci da p where sel: "r0 = shortage_select w ci da p"
    by (rule shortage_query_sound)
  show "stock_status r \<in> {''OUT_OF_STOCK'', ''CRITICAL'', ''LOW'', ''ADEQUATE''}"
    unfolding r sel shortage_round_fields shortage_select_fields
    by (rule stock_status_case_values)
  show "stock_status r = ''OUT_OF_STOCK''" if "available_stock r = 0"
    using that unfolding r sel shortage_round_fields shortage_select_fields
    by (simp add: stock_status_case_zero)
qed

lemma db_shop_shortages:
  "analyze_inventory_shortages db_shop 60 = [p2_shortage, p1_shortage, p3_shortage]"
  by (simp add: analytics_defs db_shop_def p1_shortage_def p2_shortage_def p3_shortage_def)

text \<open>
  C7, as amended: the status \<^verbatim>\<open>CASE\<close> is a total function into the four statuses, and
  it gives OUT_OF_STOCK whenever the available stock is 0, whatever the demand rate; so does
  every row \<^verbatim>\<open>analyze_inventory_shortages\<close> returns. An inventory row has a row in the
  result exactly when its warehouse id is in the warehouse table (the query joins the
  inventory to that table), and then all the result rows of its pair carry one and the same
  status. The inventory's primary key is the one the schema enforces.
\<close>

theorem shortage_classification_total:
  assumes ci: "ci \<in> set (inventory db)"
    and pk: "distinct (map (\<lambda>i. (i_product_id i, i_warehouse_id i)) (inventory db))"
  shows "(\<forall>available da.
            stock_status_case available da \<in> {''OUT_OF_STOCK'', ''CRITICAL'', ''LOW'', ''ADEQUATE''}
            \<and> (available = 0 \<longrightarrow> stock_status_case available da = ''OUT_OF_STOCK'')) \<and>
         (\<forall>r \<in> set (analyze_inventory_shortages db now).
            stock_status r \<in> {''OUT_OF_STOCK'', ''CRITICAL'', ''LOW'', ''ADEQUATE''}
            \<and> (available_stock r = 0 \<longrightarrow> stock_status r = ''OUT_OF_STOCK'')) \<and>
         ((\<exists>r \<in> set (analyze_inventory_shortages db now).
              sh_product_id r = i_product_id ci \<and> sh_warehouse_id r = i_warehouse_id ci)
            \<longleftrightarrow> (\<exists>w \<in> set (warehouse db). w_warehouse_id w = i_warehouse_id ci)) \<and>
         (\<exists>st \<in> {''OUT_OF_STOCK'', ''CRITICAL'', ''LOW'', ''ADEQUATE''}.
            \<forall>r \<in> set (analyze_inventory_shortages db now).
               sh_product_id r = i_product_id ci \<and> sh_warehouse_id r = i_warehouse_id ci \<longrightarrow>
               stock_status r = st \<and>
               available_stock r = i_stock_quantity ci - i_reserved_quantity ci)"
proof (intro conjI)
  show "\<forall>available da.
            stock_status_case available da \<in> {''OUT_OF_STOCK'', ''CRITICAL'', ''LOW'', ''ADEQUATE''}
            \<and> (available = 0 \<longrightarrow> stock_status_case available da = ''OUT_OF_STOCK'')"
    using stock_status_case_values stock_status_case_zero by blast
next
  show "\<forall>r \<in> set (analyze_inventory_shortages db now).
            stock_status r \<in> {''OUT_OF_STOCK'', ''CRITICAL'', ''LOW'', ''ADEQUATE''}
            \<and> (available_stock r = 0 \<longrightarrow> stock_status r = ''OUT_OF_STOCK'')"
    using analyze_inventory_shortages_status by blast
next
  let ?match = "\<lambda>d. i_product_id ci = da_product_id d \<and> i_warehouse_id ci = da_warehouse_id d"
  obtain da where da: "da \<in> set (left_join (filter ?match (demand_analysis db now)))"
    using left_join_nonempty by blast
  obtain p where p: "p \<in> set (left_join (filter (\<lambda>p. i_product_id ci = p_product_id p) (product db)))"
    using left_join_nonempty by blast
  show "(\<exists>r \<in> set (analyze_inventory_shortages db now).
              sh_product_id r = i_product_id ci \<and> sh_warehouse_id r = i_warehouse_id ci)
            \<longleftrightarrow> (\<exists>w \<in> set (warehouse db). w_warehouse_id w = i_warehouse_id ci)"
  proof
    assume "\<exists>r \<in> set (analyze_inventory_shortages db now).
              sh_product_id r = i_product_id ci \<and> sh_warehouse_id r = i_warehouse_id ci"
    then obtain r where r: "r \<in> set (analyze_inventory_shortages db now)"
      and k: "sh_warehouse_id r = i_warehouse_id ci" by blast
    from r obtain r0 where r0: "r0 \<in> set (shortage_query db now)" and rr: "r = shortage_round r0"
      by (auto simp: analyze_inventory_shortages_def)
    from r0 obtain w' ci' da' p' where sel: "r0 = shortage_select w' ci' da' p'"
      and w': "w' \<in> set (warehouse db)"
      by (rule shortage_query_sound)
    from k rr sel have "w_warehouse_id w' = i_warehouse_id ci" by simp
    with w' show "\<exists>w \<in> set (warehouse db). w_warehouse_id w = i_warehouse_id ci" by blast
  next
    assume "\<exists>w \<in> set (warehouse db). w_warehouse_id w = i_warehouse_id ci"
    then obtain w where w: "w \<in> set (warehouse db)" "i_warehouse_id ci = w_warehouse_id w"
      by auto
    from shortage_query_complete [OF w(1) ci da p w(2)]
    have "shortage_round (shortage_select w ci da p) \<in> set (analyze_inventory_shortages db now)"
      by (simp add: analyze_inventory_shortages_def)
    moreover have "sh_product_id (shortage_round (shortage_select w ci da p)) = i_product_id ci"
      and "sh_warehouse_id (shortage_round (shortage_select w ci da p)) = i_warehouse_id ci"
      using w(2) by simp_all
    ultimately show "\<exists>r \<in> set (analyze_inventory_shortages db now).
              sh_product_id r = i_product_id ci \<and> sh_warehouse_id r = i_warehouse_id ci"
      by blast
  qed
  let ?st = "stock_status_case (i_stock_quantity ci - i_reserved_quantity ci) da"
  have all: "\<forall>r \<in> set (analyze_inventory_shortages db now).
               sh_product_id r = i_product_id ci \<and> sh_warehouse_id r = i_warehouse_id ci \<longrightarrow>
               stock_status r = ?st \<and>
               available_stock r = i_stock_quantity ci - i_reserved_quantity ci"
  proof (intro ballI impI)
    fix r
    assume r: "r \<in> set (analyze_inventory_shortages db now)"
      and k: "sh_product_id r = i_product_id ci \<and> sh_warehouse_id r = i_warehouse_id ci"
    from r obtain r0 where r0: "r0 \<in> set (shortage_query db now)" and rr: "r = shortage_round r0"
      by (auto simp: analyze_inventory_shortages_def)
    from r0 obtain w' ci' da' p' where sel: "r0 = shortage_select w' ci' da' p'"
      and ci': "ci' \<in> set (inventory db)"
      and da': "da' \<in> set (left_join (filter (\<lambda>d. i_product_id ci' = da_product_id d
                                          \<and> i_warehouse_id ci' = da_warehouse_id d)
                                  (demand_analysis db now)))"
      and w': "i_warehouse_id ci' = w_warehouse_id w'"
      by (rule shortage_query_sound)
    from k rr sel w' have "(i_product_id ci', i_warehouse_id ci') = (i_product_id ci, i_warehouse_id ci)"
      by simp
    moreover from pk have "inj_on (\<lambda>i. (i_product_id i, i_warehouse_id i)) (set (inventory db))"
      by (simp add: distinct_map)
    ultimately have same: "ci' = ci" using ci ci' by (simp add: inj_on_def)
    from da' have "da' \<in> set (left_join (filter ?match (demand_analysis db now)))"
      unfolding same .
    from left_join_demand_unique [OF this da] have "da' = da" .
    with rr sel same show "stock_status r = ?st \<and>
               available_stock r = i_stock_quantity ci - i_reserved_quantity ci"
      by simp
  qed
  with stock_status_case_values [of "i_stock_quantity ci - i_reserved_quantity ci" da]
  show "\<exists>st \<in> {''OUT_OF_STOCK'', ''CRITICAL'', ''LOW'', ''ADEQUATE''}.
            \<forall>r \<in> set (analyze_inventory_shortages db now).
               sh_product_id r = i_product_id ci \<and> sh_warehouse_id r = i_warehouse_id ci \<longrightarrow>
               stock_status r = st \<and>
               available_stock r = i_stock_quantity ci - i_reserved_quantity ci"
    by blast
qed

text \<open>
  On \<open>db_shop\<close>, (P2, W1) has no available stock and a demand of 3 units: OUT_OF_STOCK. A
  demand rate of 0 makes the division NULL and the status ADEQUATE. On \<open>db_orphan\<close> the
  pair (P1, W9) has no row.
\<close>

theorem shortage_classification_total_witness:
  "analyze_inventory_shortages db_shop 60 = [p2_shortage, p1_shortage, p3_shortage]
   \<and> sh_product_id p2_shortage = ''P2'' \<and> sh_warehouse_id p2_shortage = ''W1''
   \<and> available_stock p2_shortage = 0 \<and> demand_last_30days p2_shortage = 3
   \<and> stock_status p2_shortage = ''OUT_OF_STOCK''
   \<and> stock_status p1_shortage = ''LOW''
   \<and> stock_status_case 5 None = ''ADEQUATE''
   \<and> stock_status_case 5 (Some \<lparr>da_product_id = ''P'', da_warehouse_id = ''W'',
        order_frequency = 1, total_demand_30days = 30, avg_demand_per_order = 30,
        da_daily_demand_rate = 1\<rparr>) = ''CRITICAL''
   \<and> stock_status_case 5 (Some \<lparr>da_product_id = ''P'', da_warehouse_id = ''W'',
        order_frequency = 1, total_demand_30days = 0, avg_demand_per_order = 0,
        da_daily_demand_rate = 0\<rparr>) = ''ADEQUATE''
   \<and> \<not> (\<exists>r \<in> set (analyze_inventory_shortages db_orphan 60).
           sh_product_id r = ''P1'' \<and> sh_warehouse_id r = ''W9'')"
proof -
  let ?ci = "\<lparr>i_product_id = ''P2'', i_warehouse_id = ''W1'', i_stock_quantity = 4,
        i_reserved_quantity = 4\<rparr>"
  let ?orphan = "\<lparr>i_product_id = ''P1'', i_warehouse_id = ''W9'', i_stock_quantity = 5,
        i_reserved_quantity = 0\<rparr>"
  have ci: "?ci \<in> set (inventory db_shop)" by (simp add: db_shop_def)
  have pk: "distinct (map (\<lambda>i. (i_product_id i, i_warehouse_id i)) (inventory db_shop))"
    by (simp add: db_shop_def)
  have mem: "p2_shortage \<in> set (analyze_inventory_shortages db_shop 60)"
    by (simp add: db_shop_shortages)
  have zero: "available_stock p2_shortage = 0" by (simp add: p2_shortage_def)
  from shortage_classification_total [OF ci pk, of 60] mem zero
  have a: "stock_status p2_shortage = ''OUT_OF_STOCK''" by blast
  have oi: "?orphan \<in> set (inventory db_orphan)" by (simp add: db_orphan_def)
  have opk: "distinct (map (\<lambda>i. (i_product_id i, i_warehouse_id i)) (inventory db_orphan))"
    by (simp add: db_orphan_def)
  have nofk: "\<not> (\<exists>w \<in> set (warehouse db_orphan). w_warehouse_id w = i_warehouse_id ?orphan)"
    by (simp add: db_orphan_def)
  from shortage_classification_total [OF oi opk, of 60] nofk
  have b: "\<not> (\<exists>r \<in> set (analyze_inventory_shortages db_orphan 60).
           sh_product_id r = i_product_id ?orphan \<and> sh_warehouse_id r = i_warehouse_id ?orphan)"
    by blast
  from a b show ?thesis
    by (simp add: db_shop_shortages p1_shortage_def p2_shortage_def stock_status_case_def
        coalesce_rate_def sql_div_def sql_when_less_def)
qed

text \<open>
  C7 as stated fails: on \<open>db_orphan\<close> the inventory has a row for (P1, W9), the warehouse
  table has only W1, and the result is empty: the row receives no status.
\<close>

theorem orphan_inventory_row_counterexample:
  "inventory db_orphan = [\<lparr>i_product_id = ''P1'', i_warehouse_id = ''W9'', i_stock_quantity = 5,
        i_reserved_quantity = 0\<rparr>]
   \<and> map w_warehouse_id (warehouse db_orphan) = [''W1'']
   \<and> analyze_inventory_shortages db_orphan 60 = []"
  by (simp add: analytics_defs db_orphan_def)

end
